theory Spec2Isabelle
  imports
    Complex_Main
    "HOL-Library.Char_ord"
    "HOL-Library.List_Lexorder"
    "HOL-Library.Product_Lexorder"
    "HOL-Library.Monad_Syntax"
begin

chapter \<open>The sales data processor\<close>

text \<open>
  \<open>scripts/data_processor.py\<close> reads a sheet of order records, cleans it
  (\<open>load_and_clean_data\<close>), computes a KPI summary and eleven grouped views of the cleaned
  frame, and writes them as one JSON document (\<open>main\<close>). This theory embeds the cleaning as
  a sequence of column assignments on an untyped frame, and the views and the document as
  functions of a typed frame of cleaned records, and proves properties of both.
\<close>

section \<open>Numbers\<close>

text \<open>
  pandas keeps every measure in a float64 column. A finite value is a rational here (every
  double is one), and the three special values of IEEE arithmetic are constructors of
  their own, so that a division by zero or a mean over nothing is a value of the model
  exactly as it is a value of the program (numpy divides by zero without raising).
\<close>

datatype fnum = Fin rat | PInf | NInf | NaN

text \<open>
  What a floating-point operation returns on finite operands is a parameter of the
  embedding: \<open>fp_round n\<close> is \<open>round(x, n)\<close> and \<open>Series.round(n)\<close>, \<open>fp_div\<close>, \<open>fp_mul\<close> and
  \<open>fp_add\<close> are \<open>/\<close> (by a non-zero divisor), \<open>*\<close> and \<open>+\<close>, \<open>fp_sum\<close> and \<open>fp_mean\<close> are
  \<open>Series.sum()\<close> and \<open>Series.mean()\<close> of a column (the mean of a non-empty one),
  \<open>fp_group_sum\<close> and \<open>fp_group_mean\<close> those of one group of a \<open>groupby\<close>, and
  \<open>fp_rolling_mean\<close> the mean of one window of \<open>rolling\<close>. A statement that holds for every
  such arithmetic holds for that of the doubles. A finite operation is taken to give a
  finite result (no overflow), and the sign of a zero is not kept.
\<close>

record arith =
  fp_round :: "nat \<Rightarrow> rat \<Rightarrow> rat"
  fp_div :: "rat \<Rightarrow> rat \<Rightarrow> rat"
  fp_mul :: "rat \<Rightarrow> rat \<Rightarrow> rat"
  fp_add :: "rat \<Rightarrow> rat \<Rightarrow> rat"
  fp_sum :: "rat list \<Rightarrow> rat"
  fp_mean :: "rat list \<Rightarrow> rat"
  fp_group_sum :: "rat list \<Rightarrow> rat"
  fp_group_mean :: "rat list \<Rightarrow> rat"
  fp_rolling_mean :: "rat list \<Rightarrow> rat"

fun isnan :: "fnum \<Rightarrow> bool" where
  "isnan NaN = True"
| "isnan _ = False"

fun fneg :: "fnum \<Rightarrow> fnum" where
  "fneg (Fin a) = Fin (- a)"
| "fneg PInf = NInf"
| "fneg NInf = PInf"
| "fneg NaN = NaN"

fun fadd :: "arith \<Rightarrow> fnum \<Rightarrow> fnum \<Rightarrow> fnum" where
  "fadd A (Fin a) (Fin b) = Fin (fp_add A a b)"
| "fadd A NaN _ = NaN"
| "fadd A _ NaN = NaN"
| "fadd A PInf NInf = NaN"
| "fadd A NInf PInf = NaN"
| "fadd A PInf _ = PInf"
| "fadd A NInf _ = NInf"
| "fadd A _ PInf = PInf"
| "fadd A _ NInf = NInf"

definition fsub :: "arith \<Rightarrow> fnum \<Rightarrow> fnum \<Rightarrow> fnum" where
  "fsub A x y = fadd A x (fneg y)"

text \<open>The infinity of the sign of a non-zero rational.\<close>

definition inf_of_sign :: "rat \<Rightarrow> fnum" where
  "inf_of_sign a = (if 0 < a then PInf else NInf)"

fun fmul :: "arith \<Rightarrow> fnum \<Rightarrow> fnum \<Rightarrow> fnum" where
  "fmul A (Fin a) (Fin b) = Fin (fp_mul A a b)"
| "fmul A NaN _ = NaN"
| "fmul A _ NaN = NaN"
| "fmul A (Fin a) y = (if a = 0 then NaN else if 0 < a then y else fneg y)"
| "fmul A x (Fin b) = (if b = 0 then NaN else if 0 < b then x else fneg x)"
| "fmul A PInf y = y"
| "fmul A NInf y = fneg y"

fun fdiv :: "arith \<Rightarrow> fnum \<Rightarrow> fnum \<Rightarrow> fnum" where
  "fdiv A (Fin a) (Fin b) =
     (if b = 0 then (if a = 0 then NaN else inf_of_sign a) else Fin (fp_div A a b))"
| "fdiv A NaN _ = NaN"
| "fdiv A _ NaN = NaN"
| "fdiv A (Fin a) _ = Fin 0"
| "fdiv A x (Fin b) = (if 0 \<le> b then x else fneg x)"
| "fdiv A _ _ = NaN"

text \<open>\<open>x <= y\<close> on floats: every comparison with NaN is false.\<close>

fun fle :: "fnum \<Rightarrow> fnum \<Rightarrow> bool" where
  "fle NaN _ = False"
| "fle _ NaN = False"
| "fle (Fin a) (Fin b) = (a \<le> b)"
| "fle NInf _ = True"
| "fle _ PInf = True"
| "fle _ _ = False"

text \<open>Rounding keeps NaN and the infinities.\<close>

fun fround :: "arith \<Rightarrow> nat \<Rightarrow> fnum \<Rightarrow> fnum" where
  "fround A n (Fin a) = Fin (fp_round A n a)"
| "fround A n x = x"

text \<open>\<open>Series.fillna(v)\<close> on a float column replaces NaN only.\<close>

definition fillna :: "fnum \<Rightarrow> fnum \<Rightarrow> fnum" where
  "fillna v x = (if isnan x then v else x)"

text \<open>A mean with the given mean of a non-empty column; the mean of nothing is NaN.\<close>

definition fmean :: "(rat list \<Rightarrow> rat) \<Rightarrow> rat list \<Rightarrow> fnum" where
  "fmean mean xs = (if xs = [] then NaN else Fin (mean xs))"

text \<open>A column that was never cleaned may hold nulls; \<open>sum\<close> and \<open>mean\<close> skip them.\<close>

definition dropna :: "'a option list \<Rightarrow> 'a list" where
  "dropna xs = List.map_filter (\<lambda>x. x) xs"

text \<open>\<open>Series.nunique()\<close>: the number of distinct non-null values.\<close>

definition nunique :: "'a option list \<Rightarrow> nat" where
  "nunique xs = length (remdups (dropna xs))"

text \<open>The mean of a boolean column counts True as 1.\<close>

definition bool_num :: "bool \<Rightarrow> rat" where
  "bool_num b = (if b then 1 else 0)"

text \<open>\<open>int(x)\<close> of a finite float truncates towards zero.\<close>

definition trunc :: "rat \<Rightarrow> int" where
  "trunc x = (if 0 \<le> x then \<lfloor>x\<rfloor> else \<lceil>x\<rceil>)"

text \<open>\<open>(a / b * 100).round(2)\<close>, the form of every margin and share.\<close>

definition pct :: "arith \<Rightarrow> rat \<Rightarrow> rat \<Rightarrow> fnum" where
  "pct A a b = fround A 2 (fmul A (fdiv A (Fin a) (Fin b)) (Fin 100))"

text \<open>\<open>(a / b).round(2)\<close>.\<close>

definition ratio :: "arith \<Rightarrow> rat \<Rightarrow> rat \<Rightarrow> fnum" where
  "ratio A a b = fround A 2 (fdiv A (Fin a) (Fin b))"

subsection \<open>Exact arithmetic\<close>

text \<open>
  The arithmetic of the rationals, with \<open>numpy.rint\<close> for rounding: the nearest integer of
  the scaled value, a tie going to the even neighbour. It is the arithmetic of the examples
  and of the bounds on sums of shares. The doubles differ from it by the binary rounding
  of each operation, which shows in the last digit of a result that is a tie, or nearly
  one, in decimal.
\<close>

definition rint :: "rat \<Rightarrow> int" where
  "rint x =
     (let f = \<lfloor>x\<rfloor>; d = x - of_int f
      in if d < 1 / 2 then f else if 1 / 2 < d then f + 1 else if even f then f else f + 1)"

definition round_to :: "nat \<Rightarrow> rat \<Rightarrow> rat" where
  "round_to n x = of_int (rint (x * 10 ^ n)) / 10 ^ n"

definition mean_list :: "rat list \<Rightarrow> rat" where
  "mean_list xs = sum_list xs / of_nat (length xs)"

definition exact :: arith where
  "exact =
     \<lparr> fp_round = round_to, fp_div = (\<lambda>a b. a / b), fp_mul = (\<lambda>a b. a * b),
       fp_add = (\<lambda>a b. a + b), fp_sum = sum_list, fp_mean = mean_list,
       fp_group_sum = sum_list, fp_group_mean = mean_list, fp_rolling_mean = mean_list \<rparr>"

section \<open>Dates\<close>

text \<open>
  Only the calendar day of a timestamp is kept: every use the program makes of
  \<open>OrderDate\<close> (year, month, weekday, the monthly period, \<open>strftime('%b %Y')\<close>) ignores the
  time of day.
\<close>

datatype month = Jan | Feb | Mar | Apr | May | Jun | Jul | Aug | Sep | Oct | Nov | Dec

fun month_num :: "month \<Rightarrow> nat" where
  "month_num Jan = 1" | "month_num Feb = 2" | "month_num Mar = 3" | "month_num Apr = 4"
| "month_num May = 5" | "month_num Jun = 6" | "month_num Jul = 7" | "month_num Aug = 8"
| "month_num Sep = 9" | "month_num Oct = 10" | "month_num Nov = 11" | "month_num Dec = 12"

fun month_abbr :: "month \<Rightarrow> string" where
  "month_abbr Jan = ''Jan''" | "month_abbr Feb = ''Feb''" | "month_abbr Mar = ''Mar''"
| "month_abbr Apr = ''Apr''" | "month_abbr May = ''May''" | "month_abbr Jun = ''Jun''"
| "month_abbr Jul = ''Jul''" | "month_abbr Aug = ''Aug''" | "month_abbr Sep = ''Sep''"
| "month_abbr Oct = ''Oct''" | "month_abbr Nov = ''Nov''" | "month_abbr Dec = ''Dec''"

record date =
  dyear :: nat
  dmonth :: month
  dday :: nat

definition date_key :: "date \<Rightarrow> nat \<times> nat \<times> nat" where
  "date_key d = (dyear d, month_num (dmonth d), dday d)"

definition date_min :: "date \<Rightarrow> date \<Rightarrow> date" where
  "date_min a b = (if date_key b < date_key a then b else a)"

definition date_max :: "date \<Rightarrow> date \<Rightarrow> date" where
  "date_max a b = (if date_key a < date_key b then b else a)"

definition digit_char :: "nat \<Rightarrow> char" where
  "digit_char n = ''0123456789'' ! n"

fun show_nat :: "nat \<Rightarrow> string" where
  "show_nat n = (if n < 10 then [digit_char n] else show_nat (n div 10) @ [digit_char (n mod 10)])"

text \<open>\<open>strftime('%b %Y')\<close>; a pandas timestamp has a four-digit year.\<close>

definition strftime_b_Y :: "date \<Rightarrow> string" where
  "strftime_b_Y d = month_abbr (dmonth d) @ '' '' @ show_nat (dyear d)"

section \<open>The normalized record\<close>

text \<open>
  One row of the frame \<open>load_and_clean_data\<close> returns, with the columns the views read.
  The six categorical columns that the cleaning fills and the numeric columns that it
  coerces hold a value in every row. The columns it does not touch (\<open>Order Id\<close>,
  \<open>Buyer_Email\<close>, \<open>ProductName\<close>, \<open>Channel\<close>, \<open>Order_Status\<close>, \<open>DiscountRate\<close>,
  \<open>Payment_Fees\<close>, \<open>Days \<close>) may be null: \<open>None\<close>. So may the order date: the cleaning
  keeps a blank \<open>OrderDate\<close> as NaT, and then the weekday and its name are NaN and the
  monthly period is the text \<open>NaT\<close>. The views read the derived calendar columns, not the
  date, so these are fields of their own.
\<close>

record order =
  order_id :: "string option"
  buyer_email :: "string option"
  product_name :: "string option"
  category :: string
  brand :: string
  region :: string
  country :: string
  payment_method :: string
  courier :: string
  channel :: "string option"
  order_status :: "string option"
  revenue_usd :: rat
  profit :: rat
  units_sold :: rat
  shipping_cost :: rat
  refund_amount :: rat
  discount_rate :: "rat option"
  payment_fees :: "rat option"
  days :: "rat option"
  prime_member :: bool
  is_late :: bool
  order_date :: "date option"
  day_of_week :: "nat option"
  day_name :: "string option"
  year_month :: string

type_synonym frame = "order list"

text \<open>\<open>df[df['Order_Status'] == 'Completed']\<close>; a null status is not equal to anything.\<close>

definition completed_df :: "frame \<Rightarrow> frame" where
  "completed_df df = filter (\<lambda>r. order_status r = Some ''Completed'') df"

section \<open>Grouping and sorting\<close>

text \<open>
  \<open>df.groupby(key)\<close> drops the rows whose key is null and yields the groups in ascending
  order of the key; each group keeps its rows in frame order.
\<close>

definition group_keys :: "('r \<Rightarrow> 'k option) \<Rightarrow> 'r list \<Rightarrow> ('k :: linorder) list" where
  "group_keys key rs = sort (remdups (dropna (map key rs)))"

definition groupby :: "('r \<Rightarrow> 'k option) \<Rightarrow> 'r list \<Rightarrow> (('k :: linorder) \<times> 'r list) list" where
  "groupby key rs = map (\<lambda>k. (k, filter (\<lambda>r. key r = Some k) rs)) (group_keys key rs)"

text \<open>
  \<open>sort_values(col, ascending=False)\<close> and \<open>nlargest(n, col)\<close> on a finite column: rows in
  descending order of the column. Rows with equal values are kept in their previous order
  here; pandas leaves the order of equal values to numpy's sort, which need not keep it.
  No statement below depends on the order of rows with equal values.
\<close>

definition sort_desc :: "('r \<Rightarrow> 'k :: linordered_ab_group_add) \<Rightarrow> 'r list \<Rightarrow> 'r list" where
  "sort_desc f rs = sort_key (\<lambda>r. - f r) rs"

text \<open>The \<open>revenue\<close> and \<open>profit\<close> columns of a grouped view: the group's sum, rounded.\<close>

definition group_revenue :: "arith \<Rightarrow> 'k \<times> frame \<Rightarrow> rat" where
  "group_revenue A g = fp_round A 2 (fp_group_sum A (map revenue_usd (snd g)))"

definition group_profit :: "arith \<Rightarrow> 'k \<times> frame \<Rightarrow> rat" where
  "group_profit A g = fp_round A 2 (fp_group_sum A (map profit (snd g)))"

definition group_units :: "arith \<Rightarrow> 'k \<times> frame \<Rightarrow> rat" where
  "group_units A g = fp_group_sum A (map units_sold (snd g))"

definition group_orders :: "'k \<times> frame \<Rightarrow> nat" where
  "group_orders g = nunique (map order_id (snd g))"

definition group_customers :: "'k \<times> frame \<Rightarrow> nat" where
  "group_customers g = nunique (map buyer_email (snd g))"

section \<open>KPI summary\<close>

datatype error = KeyError string | ParserError | ValueError

record kpis =
  k_total_revenue :: rat
  k_total_profit :: rat
  k_total_orders :: nat
  k_total_units_sold :: int
  k_avg_order_value :: fnum
  k_profit_margin :: fnum
  k_unique_customers :: nat
  k_prime_member_pct :: fnum
  k_late_delivery_pct :: fnum
  k_unique_products :: nat
  k_unique_countries :: nat
  k_avg_discount_rate :: fnum
  k_data_period :: string

text \<open>
  The period label is taken from \<open>df\<close>, the whole frame, not from \<open>completed_df\<close>. \<open>min()\<close> and
  \<open>max()\<close> skip NaT; when no row has a date (no row at all, or blank dates only) they are
  NaT, whose \<open>strftime\<close> raises ValueError.
\<close>

definition data_period :: "frame \<Rightarrow> error + string" where
  "data_period df =
     (case dropna (map order_date df) of
        [] \<Rightarrow> Inl ValueError
      | d # ds \<Rightarrow> Inr (strftime_b_Y (fold date_min ds d) @ '' - '' @ strftime_b_Y (fold date_max ds d)))"

definition calculate_kpis :: "arith \<Rightarrow> frame \<Rightarrow> error + kpis" where
  "calculate_kpis A df =
     (let completed = completed_df df
      in case data_period df of
           Inl e \<Rightarrow> Inl e
         | Inr period \<Rightarrow> Inr
            \<lparr> k_total_revenue = fp_round A 2 (fp_sum A (map revenue_usd completed)),
              k_total_profit = fp_round A 2 (fp_sum A (map profit completed)),
              k_total_orders = nunique (map order_id completed),
              k_total_units_sold = trunc (fp_sum A (map units_sold completed)),
              k_avg_order_value = fround A 2 (fmean (fp_mean A) (map revenue_usd completed)),
              k_profit_margin =
                fround A 2 (fmul A (fdiv A (Fin (fp_sum A (map profit completed)))
                                           (Fin (fp_sum A (map revenue_usd completed)))) (Fin 100)),
              k_unique_customers = nunique (map buyer_email completed),
              k_prime_member_pct =
                fround A 2 (fmul A (fmean (fp_mean A)
                  (map (\<lambda>r. bool_num (prime_member r)) completed)) (Fin 100)),
              k_late_delivery_pct =
                fround A 2 (fmul A (fmean (fp_mean A)
                  (map (\<lambda>r. bool_num (is_late r)) completed)) (Fin 100)),
              k_unique_products = nunique (map product_name completed),
              k_unique_countries = nunique (map (\<lambda>r. Some (country r)) completed),
              k_avg_discount_rate =
                fround A 2 (fmul A (fmean (fp_mean A) (dropna (map discount_rate completed)))
                  (Fin 100)),
              k_data_period = period \<rparr>)"

section \<open>Monthly trend\<close>

record monthly_agg =
  ma_month :: string
  ma_revenue :: rat
  ma_profit :: rat
  ma_orders :: nat
  ma_units :: rat

record monthly_row =
  m_month :: string
  m_revenue :: rat
  m_profit :: rat
  m_orders :: nat
  m_units :: rat
  m_revenue_growth :: fnum
  m_revenue_ma3 :: fnum

definition monthly_group :: "arith \<Rightarrow> string \<times> frame \<Rightarrow> monthly_agg" where
  "monthly_group A g =
     \<lparr> ma_month = fst g,
       ma_revenue = group_revenue A g,
       ma_profit = group_profit A g,
       ma_orders = group_orders g,
       ma_units = group_units A g \<rparr>"

text \<open>\<open>Series.shift(1)\<close>: every value one place down, NaN in the first place.\<close>

definition shift1 :: "rat list \<Rightarrow> fnum list" where
  "shift1 xs = (if xs = [] then [] else NaN # map Fin (butlast xs))"

text \<open>\<open>Series.pct_change()\<close>: \<open>x / x.shift(1) - 1\<close>.\<close>

definition pct_change :: "arith \<Rightarrow> rat list \<Rightarrow> fnum list" where
  "pct_change A xs = map2 (\<lambda>x p. fsub A (fdiv A (Fin x) p) (Fin 1)) xs (shift1 xs)"

text \<open>
  \<open>Series.rolling(window=w).mean()\<close>: the mean of the last \<open>w\<close> values, NaN where fewer than
  \<open>w\<close> values have been seen.
\<close>

definition rolling_mean :: "arith \<Rightarrow> nat \<Rightarrow> rat list \<Rightarrow> fnum list" where
  "rolling_mean A w xs =
     map (\<lambda>i. if Suc i < w then NaN
              else fmean (fp_rolling_mean A) (take w (drop (Suc i - w) xs))) [0..<length xs]"

definition monthly_row :: "monthly_agg \<times> fnum \<times> fnum \<Rightarrow> monthly_row" where
  "monthly_row t =
     (case t of (a, growth, ma3) \<Rightarrow>
       \<lparr> m_month = ma_month a, m_revenue = ma_revenue a, m_profit = ma_profit a,
         m_orders = ma_orders a, m_units = ma_units a,
         m_revenue_growth = growth, m_revenue_ma3 = ma3 \<rparr>)"

definition calculate_monthly_trends :: "arith \<Rightarrow> frame \<Rightarrow> monthly_row list" where
  "calculate_monthly_trends A df =
     (let monthly = map (monthly_group A) (groupby (\<lambda>r. Some (year_month r)) (completed_df df));
          revenue = map ma_revenue monthly;
          growth = map (\<lambda>x. fillna (Fin 0) (fround A 2 (fmul A x (Fin 100))))
                     (pct_change A revenue);
          ma3 = map2 (\<lambda>x r. fillna (Fin r) (fround A 2 x)) (rolling_mean A 3 revenue) revenue
      in map monthly_row (zip monthly (zip growth ma3)))"

section \<open>Category performance\<close>

record category_agg =
  ca_category :: string
  ca_revenue :: rat
  ca_profit :: rat
  ca_orders :: nat
  ca_units :: rat
  ca_profit_margin :: fnum
  ca_revenue_share :: fnum

record category_row =
  c_category :: string
  c_revenue :: rat
  c_profit :: rat
  c_orders :: nat
  c_units :: rat
  c_profit_margin :: fnum
  c_revenue_share :: fnum
  c_cumulative_share :: fnum
  c_pareto_class :: string

definition category_group :: "arith \<Rightarrow> rat \<Rightarrow> string \<times> frame \<Rightarrow> category_agg" where
  "category_group A all_revenue g =
     \<lparr> ca_category = fst g,
       ca_revenue = group_revenue A g,
       ca_profit = group_profit A g,
       ca_orders = group_orders g,
       ca_units = group_units A g,
       ca_profit_margin = pct A (group_profit A g) (group_revenue A g),
       ca_revenue_share = pct A (group_revenue A g) all_revenue \<rparr>"

text \<open>
  \<open>Series.cumsum()\<close>: the first value, then each running sum; a NaN entry stays NaN and is
  left out of the running sum, an infinity enters it.
\<close>

fun cumsum_from :: "arith \<Rightarrow> fnum option \<Rightarrow> fnum list \<Rightarrow> fnum list" where
  "cumsum_from A acc [] = []"
| "cumsum_from A acc (x # xs) =
     (if isnan x then NaN # cumsum_from A acc xs
      else (let s = (case acc of None \<Rightarrow> x | Some a \<Rightarrow> fadd A a x)
            in s # cumsum_from A (Some s) xs))"

definition cumsum :: "arith \<Rightarrow> fnum list \<Rightarrow> fnum list" where
  "cumsum A xs = cumsum_from A None xs"

definition pareto_class :: "fnum \<Rightarrow> string" where
  "pareto_class x = (if fle x (Fin 80) then ''Top Performer'' else ''Supporting'')"

definition category_row :: "category_agg \<Rightarrow> fnum \<Rightarrow> category_row" where
  "category_row a cum =
     \<lparr> c_category = ca_category a, c_revenue = ca_revenue a, c_profit = ca_profit a,
       c_orders = ca_orders a, c_units = ca_units a,
       c_profit_margin = ca_profit_margin a, c_revenue_share = ca_revenue_share a,
       c_cumulative_share = cum, c_pareto_class = pareto_class cum \<rparr>"

definition calculate_category_performance :: "arith \<Rightarrow> frame \<Rightarrow> category_row list" where
  "calculate_category_performance A df =
     (let groups = groupby (\<lambda>r. Some (category r)) (completed_df df);
          all_revenue = fp_sum A (map (group_revenue A) groups);
          category = sort_desc ca_revenue (map (category_group A all_revenue) groups)
      in map2 category_row category (cumsum A (map ca_revenue_share category)))"

section \<open>Regional performance\<close>

record regional_row =
  r_region :: string
  r_country :: string
  r_revenue :: rat
  r_profit :: rat
  r_orders :: nat
  r_customers :: nat
  r_avg_order_value :: fnum
  r_revenue_per_customer :: fnum

definition regional_group :: "arith \<Rightarrow> (string \<times> string) \<times> frame \<Rightarrow> regional_row" where
  "regional_group A g =
     \<lparr> r_region = fst (fst g), r_country = snd (fst g),
       r_revenue = group_revenue A g, r_profit = group_profit A g,
       r_orders = group_orders g, r_customers = group_customers g,
       r_avg_order_value = ratio A (group_revenue A g) (of_nat (group_orders g)),
       r_revenue_per_customer = ratio A (group_revenue A g) (of_nat (group_customers g)) \<rparr>"

definition calculate_regional_performance :: "arith \<Rightarrow> frame \<Rightarrow> regional_row list" where
  "calculate_regional_performance A df =
     map (regional_group A) (groupby (\<lambda>r. Some (region r, country r)) (completed_df df))"

section \<open>Channel performance\<close>

record channel_row =
  ch_channel :: string
  ch_revenue :: rat
  ch_profit :: rat
  ch_orders :: nat
  ch_units :: rat
  ch_market_share :: fnum

definition channel_group :: "arith \<Rightarrow> rat \<Rightarrow> string \<times> frame \<Rightarrow> channel_row" where
  "channel_group A all_revenue g =
     \<lparr> ch_channel = fst g, ch_revenue = group_revenue A g, ch_profit = group_profit A g,
       ch_orders = group_orders g, ch_units = group_units A g,
       ch_market_share = pct A (group_revenue A g) all_revenue \<rparr>"

definition calculate_channel_performance :: "arith \<Rightarrow> frame \<Rightarrow> channel_row list" where
  "calculate_channel_performance A df =
     (let groups = groupby channel (completed_df df);
          all_revenue = fp_sum A (map (group_revenue A) groups)
      in sort_desc ch_revenue (map (channel_group A all_revenue) groups))"

section \<open>Payment analysis\<close>

record payment_row =
  p_payment_method :: string
  p_revenue :: rat
  p_avg_order_value :: fnum
  p_orders :: nat
  p_fees :: rat
  p_share :: fnum

definition payment_group :: "arith \<Rightarrow> rat \<Rightarrow> string \<times> frame \<Rightarrow> payment_row" where
  "payment_group A all_revenue g =
     \<lparr> p_payment_method = fst g, p_revenue = group_revenue A g,
       p_avg_order_value = fround A 2 (fmean (fp_group_mean A) (map revenue_usd (snd g))),
       p_orders = group_orders g,
       p_fees = fp_round A 2 (fp_group_sum A (dropna (map payment_fees (snd g)))),
       p_share = pct A (group_revenue A g) all_revenue \<rparr>"

definition calculate_payment_analysis :: "arith \<Rightarrow> frame \<Rightarrow> payment_row list" where
  "calculate_payment_analysis A df =
     (let groups = groupby (\<lambda>r. Some (payment_method r)) (completed_df df);
          all_revenue = fp_sum A (map (group_revenue A) groups)
      in sort_desc p_revenue (map (payment_group A all_revenue) groups))"

section \<open>Day-of-week pattern\<close>

record daily_row =
  d_day_num :: nat
  d_day_name :: string
  d_revenue :: rat
  d_orders :: nat
  d_avg_revenue :: fnum
  d_index :: fnum

text \<open>The key of \<open>groupby(['DayOfWeek', 'DayName'])\<close>: null when either column is.\<close>

definition day_key :: "order \<Rightarrow> (nat \<times> string) option" where
  "day_key r =
     (case day_of_week r of
        None \<Rightarrow> None
      | Some n \<Rightarrow> (case day_name r of None \<Rightarrow> None | Some s \<Rightarrow> Some (n, s)))"

definition daily_group :: "arith \<Rightarrow> fnum \<Rightarrow> (nat \<times> string) \<times> frame \<Rightarrow> daily_row" where
  "daily_group A avg_revenue g =
     \<lparr> d_day_num = fst (fst g), d_day_name = snd (fst g),
       d_revenue = group_revenue A g, d_orders = group_orders g,
       d_avg_revenue = ratio A (group_revenue A g) (of_nat (group_orders g)),
       d_index = fround A 2 (fmul A (fdiv A (Fin (group_revenue A g)) avg_revenue) (Fin 100)) \<rparr>"

definition calculate_day_of_week_analysis :: "arith \<Rightarrow> frame \<Rightarrow> daily_row list" where
  "calculate_day_of_week_analysis A df =
     (let groups = groupby day_key (completed_df df);
          avg_revenue = fmean (fp_mean A) (map (group_revenue A) groups)
      in sort_key d_day_num (map (daily_group A avg_revenue) groups))"

section \<open>Prime against non-prime\<close>

record prime_row =
  pr_is_prime :: string
  pr_revenue :: rat
  pr_avg_order_value :: fnum
  pr_profit :: rat
  pr_orders :: nat
  pr_customers :: nat
  pr_units :: rat
  pr_orders_per_customer :: fnum
  pr_revenue_per_customer :: fnum

definition prime_group :: "arith \<Rightarrow> bool \<times> frame \<Rightarrow> prime_row" where
  "prime_group A g =
     \<lparr> pr_is_prime = (if fst g then ''Prime'' else ''Non-Prime''),
       pr_revenue = group_revenue A g,
       pr_avg_order_value = fround A 2 (fmean (fp_group_mean A) (map revenue_usd (snd g))),
       pr_profit = group_profit A g,
       pr_orders = group_orders g, pr_customers = group_customers g,
       pr_units = group_units A g,
       pr_orders_per_customer = ratio A (of_nat (group_orders g)) (of_nat (group_customers g)),
       pr_revenue_per_customer = ratio A (group_revenue A g) (of_nat (group_customers g)) \<rparr>"

definition calculate_prime_analysis :: "arith \<Rightarrow> frame \<Rightarrow> prime_row list" where
  "calculate_prime_analysis A df =
     map (prime_group A) (groupby (\<lambda>r. Some (prime_member r)) (completed_df df))"

section \<open>Shipping performance\<close>

record shipping_row =
  sh_courier :: string
  sh_shipments :: nat
  sh_late_count :: nat
  sh_late_rate :: fnum
  sh_avg_cost :: fnum
  sh_avg_days :: fnum
  sh_on_time_rate :: fnum

definition shipping_group :: "arith \<Rightarrow> string \<times> frame \<Rightarrow> shipping_row" where
  "shipping_group A g =
     (let rs = snd g;
          late_rate =
            fround A 2 (fmul A (fmean (fp_group_mean A) (map (\<lambda>r. bool_num (is_late r)) rs))
              (Fin 100))
      in \<lparr> sh_courier = fst g,
           sh_shipments = group_orders g,
           sh_late_count = length (filter is_late rs),
           sh_late_rate = late_rate,
           sh_avg_cost = fround A 2 (fmean (fp_group_mean A) (map shipping_cost rs)),
           sh_avg_days = fround A 1 (fmean (fp_group_mean A) (dropna (map days rs))),
           sh_on_time_rate = fround A 2 (fsub A (Fin 100) late_rate) \<rparr>)"

definition calculate_shipping_performance :: "arith \<Rightarrow> frame \<Rightarrow> shipping_row list" where
  "calculate_shipping_performance A df =
     take 10 (sort_desc (\<lambda>r. int (sh_shipments r))
       (map (shipping_group A) (groupby (\<lambda>r. Some (courier r)) (completed_df df))))"

section \<open>Top products and brands\<close>

record product_row =
  tp_product :: string
  tp_category :: string
  tp_brand :: string
  tp_revenue :: rat
  tp_profit :: rat
  tp_units :: rat
  tp_orders :: nat
  tp_profit_margin :: fnum

text \<open>The key of \<open>groupby(['ProductName', 'Category', 'Brand'])\<close>.\<close>

definition product_key :: "order \<Rightarrow> (string \<times> string \<times> string) option" where
  "product_key r = map_option (\<lambda>p. (p, category r, brand r)) (product_name r)"

definition product_group :: "arith \<Rightarrow> (string \<times> string \<times> string) \<times> frame \<Rightarrow> product_row" where
  "product_group A g =
     \<lparr> tp_product = fst (fst g), tp_category = fst (snd (fst g)), tp_brand = snd (snd (fst g)),
       tp_revenue = group_revenue A g, tp_profit = group_profit A g,
       tp_units = group_units A g,
       tp_orders = group_orders g,
       tp_profit_margin = pct A (group_profit A g) (group_revenue A g) \<rparr>"

definition calculate_top_products :: "arith \<Rightarrow> frame \<Rightarrow> product_row list" where
  "calculate_top_products A df =
     take 20 (sort_desc tp_revenue
       (map (product_group A) (groupby product_key (completed_df df))))"

record brand_row =
  tb_brand :: string
  tb_revenue :: rat
  tb_profit :: rat
  tb_units :: rat
  tb_orders :: nat
  tb_market_share :: fnum

definition brand_group :: "arith \<Rightarrow> rat \<Rightarrow> string \<times> frame \<Rightarrow> brand_row" where
  "brand_group A all_revenue g =
     \<lparr> tb_brand = fst g, tb_revenue = group_revenue A g, tb_profit = group_profit A g,
       tb_units = group_units A g,
       tb_orders = group_orders g,
       tb_market_share = pct A (group_revenue A g) all_revenue \<rparr>"

definition calculate_top_brands :: "arith \<Rightarrow> frame \<Rightarrow> brand_row list" where
  "calculate_top_brands A df =
     (let groups = groupby (\<lambda>r. Some (brand r)) (completed_df df);
          all_revenue = fp_sum A (map (group_revenue A) groups)
      in take 15 (sort_desc tb_revenue (map (brand_group A all_revenue) groups)))"

section \<open>Order status distribution\<close>

record status_row =
  st_status :: string
  st_orders :: nat
  st_revenue :: rat
  st_refunds :: rat
  st_order_share :: fnum

definition status_group :: "arith \<Rightarrow> nat \<Rightarrow> string \<times> frame \<Rightarrow> status_row" where
  "status_group A all_orders g =
     \<lparr> st_status = fst g, st_orders = group_orders g,
       st_revenue = group_revenue A g,
       st_refunds = fp_round A 2 (fp_group_sum A (map refund_amount (snd g))),
       st_order_share = pct A (of_nat (group_orders g)) (of_nat all_orders) \<rparr>"

text \<open>The one view that groups \<open>df\<close> itself. The sum of the order counts is a sum of integers.\<close>

definition calculate_order_status_distribution :: "arith \<Rightarrow> frame \<Rightarrow> status_row list" where
  "calculate_order_status_distribution A df =
     (let groups = groupby order_status df;
          all_orders = sum_list (map group_orders groups)
      in map (status_group A all_orders) groups)"

section \<open>The document\<close>




section \<open>Cleaning\<close>

text \<open>
  The frame \<open>pd.read_excel\<close> returns is untyped: a cell is empty (NaN, None or NaT), a
  boolean, a number, a string or a timestamp, and a frame maps each column name to its
  cells. \<open>df[c] = f(df[s])\<close> reads column \<open>s\<close> (KeyError when the sheet has no such
  column) and writes column \<open>c\<close>.
\<close>

datatype cell = Null | B bool | N rat | S string | D date

type_synonym table = "string \<rightharpoonup> cell list"

text \<open>
  What pandas makes of a value that is not yet of the wanted type is taken as given:
  \<open>parse_datetime\<close> is \<open>pd.to_datetime\<close> on a cell that is neither empty nor a timestamp,
  \<open>parse_numeric\<close> is \<open>pd.to_numeric\<close> on a string or a timestamp; \<open>None\<close> where pandas cannot
  convert.
\<close>

record parsers =
  parse_datetime :: "cell \<Rightarrow> date option"
  parse_numeric :: "cell \<Rightarrow> rat option"

datatype step =
    Assign string string "cell \<Rightarrow> error + cell"
  | Assign_if_present string "cell \<Rightarrow> error + cell"

fun target :: "step \<Rightarrow> string" where
  "target (Assign c s f) = c"
| "target (Assign_if_present c f) = c"

fun source :: "step \<Rightarrow> string" where
  "source (Assign c s f) = s"
| "source (Assign_if_present c f) = c"

fun fn :: "step \<Rightarrow> cell \<Rightarrow> error + cell" where
  "fn (Assign c s f) = f"
| "fn (Assign_if_present c f) = f"

text \<open>An operation on a column stops at the first cell that raises.\<close>

fun collect :: "(error + 'a) list \<Rightarrow> error + 'a list" where
  "collect [] = Inr []"
| "collect (x # xs) =
     (case x of
        Inl e \<Rightarrow> Inl e
      | Inr y \<Rightarrow> (case collect xs of Inl e \<Rightarrow> Inl e | Inr ys \<Rightarrow> Inr (y # ys)))"

definition assign :: "string \<Rightarrow> string \<Rightarrow> (cell \<Rightarrow> error + cell) \<Rightarrow> table \<Rightarrow> error + table" where
  "assign c s f df =
     (case df s of
        None \<Rightarrow> Inl (KeyError s)
      | Some xs \<Rightarrow> (case collect (map f xs) of Inl e \<Rightarrow> Inl e | Inr ys \<Rightarrow> Inr (df(c \<mapsto> ys))))"

text \<open>\<open>if col in df.columns\<close> guards the numeric columns only.\<close>

fun exec :: "step \<Rightarrow> table \<Rightarrow> error + table" where
  "exec (Assign c s f) df = assign c s f df"
| "exec (Assign_if_present c f) df = (if df c = None then Inr df else assign c c f df)"

fun run :: "step list \<Rightarrow> table \<Rightarrow> error + table" where
  "run [] df = Inr df"
| "run (st # sts) df = (case exec st df of Inl e \<Rightarrow> Inl e | Inr df' \<Rightarrow> run sts df')"

text \<open>\<open>Series.fillna(v)\<close> on cells.\<close>

definition fill :: "cell \<Rightarrow> cell \<Rightarrow> cell" where
  "fill v c = (if c = Null then v else c)"

text \<open>\<open>pd.to_datetime(col)\<close> raises on a value it cannot parse; with \<open>errors='coerce'\<close> it yields NaT.\<close>

definition to_datetime :: "parsers \<Rightarrow> cell \<Rightarrow> error + cell" where
  "to_datetime P c =
     (case c of
        Null \<Rightarrow> Inr Null
      | D d \<Rightarrow> Inr (D d)
      | _ \<Rightarrow> (case parse_datetime P c of None \<Rightarrow> Inl ParserError | Some d \<Rightarrow> Inr (D d)))"

definition to_datetime_coerce :: "parsers \<Rightarrow> cell \<Rightarrow> cell" where
  "to_datetime_coerce P c =
     (case c of
        Null \<Rightarrow> Null
      | D d \<Rightarrow> D d
      | _ \<Rightarrow> (case parse_datetime P c of None \<Rightarrow> Null | Some d \<Rightarrow> D d))"

text \<open>
  \<open>pd.to_numeric(col, errors='coerce').fillna(0)\<close>: a number stays, a boolean counts as 1 or
  0, an empty cell and a value that does not convert become 0.
\<close>

definition to_numeric_fillna :: "parsers \<Rightarrow> cell \<Rightarrow> cell" where
  "to_numeric_fillna P c =
     (case c of
        Null \<Rightarrow> N 0
      | N x \<Rightarrow> N x
      | B b \<Rightarrow> N (bool_num b)
      | _ \<Rightarrow> (case parse_numeric P c of None \<Rightarrow> N 0 | Some x \<Rightarrow> N x))"

text \<open>
  \<open>astype(bool)\<close> applies Python's truth value: zero and the empty string are false, every
  other number, string and timestamp is true. It runs after \<open>fillna(0)\<close>, so it never
  sees an empty cell.
\<close>

fun truthy :: "cell \<Rightarrow> bool" where
  "truthy Null = False"
| "truthy (B b) = b"
| "truthy (N x) = (x \<noteq> 0)"
| "truthy (S s) = (s \<noteq> [])"
| "truthy (D d) = True"

definition prime_member_flag :: "cell \<Rightarrow> cell" where
  "prime_member_flag c = B (truthy (fill (N 0) c))"

definition lower_char :: "char \<Rightarrow> char" where
  "lower_char c =
     (if CHR ''A'' \<le> c \<and> c \<le> CHR ''Z'' then char_of (of_char c + (32 :: nat)) else c)"

text \<open>\<open>str(x).lower() == 'yes'\<close>: the text of a boolean, number or timestamp is never \<open>yes\<close>.\<close>

definition late_flag :: "cell \<Rightarrow> cell" where
  "late_flag c = B (case c of S s \<Rightarrow> map lower_char s = ''yes'' | _ \<Rightarrow> False)"

text \<open>
  The calendar of the \<open>.dt\<close> accessor. Days are counted from 1970-01-01, a Thursday;
  \<open>dayofweek\<close> has Monday as 0.
\<close>

definition days_from_civil :: "date \<Rightarrow> int" where
  "days_from_civil d =
     (let m = int (month_num (dmonth d));
          y = int (dyear d) - (if m \<le> 2 then 1 else 0);
          era = y div 400;
          yoe = y - era * 400;
          doy = (153 * (if 2 < m then m - 3 else m + 9) + 2) div 5 + int (dday d) - 1;
          doe = yoe * 365 + yoe div 4 - yoe div 100 + doy
      in era * 146097 + doe - 719468)"

definition dayofweek :: "date \<Rightarrow> nat" where
  "dayofweek d = nat ((days_from_civil d + 3) mod 7)"

definition weekday_names :: "string list" where
  "weekday_names =
     [''Monday'', ''Tuesday'', ''Wednesday'', ''Thursday'', ''Friday'', ''Saturday'', ''Sunday'']"

definition period_M :: "date \<Rightarrow> string" where
  "period_M d =
     (let m = month_num (dmonth d)
      in show_nat (dyear d) @ ''-'' @ (if m < 10 then ''0'' else []) @ show_nat m)"

text \<open>On NaT the numeric and text components are NaN; the period prints as \<open>NaT\<close>.\<close>

definition dt_year :: "cell \<Rightarrow> cell" where
  "dt_year c = (case c of D d \<Rightarrow> N (of_nat (dyear d)) | _ \<Rightarrow> Null)"

definition dt_month :: "cell \<Rightarrow> cell" where
  "dt_month c = (case c of D d \<Rightarrow> N (of_nat (month_num (dmonth d))) | _ \<Rightarrow> Null)"

definition dt_month_name :: "cell \<Rightarrow> cell" where
  "dt_month_name c = (case c of D d \<Rightarrow> S (month_abbr (dmonth d)) | _ \<Rightarrow> Null)"

definition dt_dayofweek :: "cell \<Rightarrow> cell" where
  "dt_dayofweek c = (case c of D d \<Rightarrow> N (of_nat (dayofweek d)) | _ \<Rightarrow> Null)"

definition dt_day_name :: "cell \<Rightarrow> cell" where
  "dt_day_name c = (case c of D d \<Rightarrow> S (weekday_names ! dayofweek d) | _ \<Rightarrow> Null)"

definition dt_year_month :: "cell \<Rightarrow> cell" where
  "dt_year_month c = (case c of D d \<Rightarrow> S (period_M d) | _ \<Rightarrow> S ''NaT'')"

definition pure :: "(cell \<Rightarrow> cell) \<Rightarrow> cell \<Rightarrow> error + cell" where
  "pure f c = Inr (f c)"

text \<open>The assignments of \<open>load_and_clean_data\<close>, in the order of the source.\<close>

definition cleaning_steps :: "parsers \<Rightarrow> step list" where
  "cleaning_steps P =
     [ Assign ''Category'' ''Category'' (pure (fill (S ''Unknown''))),
       Assign ''Brand'' ''Brand'' (pure (fill (S ''Unknown Brand''))),
       Assign ''Region'' ''Region'' (pure (fill (S ''Unknown''))),
       Assign ''Country'' ''Country'' (pure (fill (S ''Unknown''))),
       Assign ''Payment_Method'' ''Payment_Method'' (pure (fill (S ''Unknown''))),
       Assign ''Courier'' ''Courier'' (pure (fill (S ''Unknown''))),
       Assign ''OrderDate'' ''OrderDate'' (to_datetime P),
       Assign ''Shipping_Date'' ''Shipping_Date'' (pure (to_datetime_coerce P)),
       Assign ''Expected_Delivery_Date'' ''Expected_Delivery_Date'' (pure (to_datetime_coerce P)),
       Assign_if_present ''Revenue_USD'' (pure (to_numeric_fillna P)),
       Assign_if_present ''Profit'' (pure (to_numeric_fillna P)),
       Assign_if_present ''UnitsSold'' (pure (to_numeric_fillna P)),
       Assign_if_present ''UnitPrice'' (pure (to_numeric_fillna P)),
       Assign_if_present ''Shipping_Cost'' (pure (to_numeric_fillna P)),
       Assign_if_present ''TaxAmount'' (pure (to_numeric_fillna P)),
       Assign_if_present ''DiscountAmount'' (pure (to_numeric_fillna P)),
       Assign_if_present ''Refund_Amount'' (pure (to_numeric_fillna P)),
       Assign ''Prime_Member'' ''Prime_Member'' (pure prime_member_flag),
       Assign ''Late Deliveries?'' ''Late Deliveries?'' (pure (fill (S ''No''))),
       Assign ''IsLate'' ''Late Deliveries?'' (pure late_flag),
       Assign ''Year'' ''OrderDate'' (pure dt_year),
       Assign ''Month'' ''OrderDate'' (pure dt_month),
       Assign ''MonthName'' ''OrderDate'' (pure dt_month_name),
       Assign ''DayOfWeek'' ''OrderDate'' (pure dt_dayofweek),
       Assign ''DayName'' ''OrderDate'' (pure dt_day_name),
       Assign ''YearMonth'' ''OrderDate'' (pure dt_year_month) ]"

text \<open>\<open>load_and_clean_data\<close> from the frame \<open>pd.read_excel\<close> returned.\<close>

definition load_and_clean_data :: "parsers \<Rightarrow> table \<Rightarrow> error + table" where
  "load_and_clean_data P df = run (cleaning_steps P) df"

text \<open>
  An assignment can be repeated when its function maps each of its results to itself, and
  a list of assignments when, besides, no assignment writes a column that an earlier one
  read or wrote.
\<close>

definition repeatable :: "(cell \<Rightarrow> error + cell) \<Rightarrow> bool" where
  "repeatable f = (\<forall>x y. f x = Inr y \<longrightarrow> f y = Inr y)"

definition apart :: "step \<Rightarrow> step \<Rightarrow> bool" where
  "apart st later = (target later \<noteq> target st \<and> target later \<noteq> source st)"

fun settled :: "step list \<Rightarrow> bool" where
  "settled [] = True"
| "settled (st # sts) =
     ((target st = source st \<longrightarrow> repeatable (fn st)) \<and> list_all (apart st) sts \<and> settled sts)"

section \<open>From the cleaned frame to its records\<close>

text \<open>
  The views read the cleaned frame column by column; a record of the typed frame is one
  row of it. \<open>rows_of\<close> reads the rows of a cleaned frame that has every column the views
  read, all of one length, with text or nothing in the text columns and a number or
  nothing in \<open>DiscountRate\<close>, \<open>Payment_Fees\<close> and \<open>Days \<close>. It has no value for any other frame:
  a view raises KeyError on a column that is not there, and a cell of another type is
  outside this embedding. The cleaning itself makes the other columns what \<open>rows_of\<close>
  expects: numbers, booleans, timestamps or NaT, and the calendar columns.
\<close>

fun as_text :: "cell \<Rightarrow> string option option" where
  "as_text Null = Some None"
| "as_text (S s) = Some (Some s)"
| "as_text _ = None"

fun as_filled_text :: "cell \<Rightarrow> string option" where
  "as_filled_text (S s) = Some s"
| "as_filled_text _ = None"

fun as_number :: "cell \<Rightarrow> rat option option" where
  "as_number Null = Some None"
| "as_number (N x) = Some (Some x)"
| "as_number _ = None"

fun as_filled_number :: "cell \<Rightarrow> rat option" where
  "as_filled_number (N x) = Some x"
| "as_filled_number _ = None"

fun as_flag :: "cell \<Rightarrow> bool option" where
  "as_flag (B b) = Some b"
| "as_flag _ = None"

fun as_date :: "cell \<Rightarrow> date option option" where
  "as_date Null = Some None"
| "as_date (D d) = Some (Some d)"
| "as_date _ = None"

fun as_index :: "cell \<Rightarrow> nat option option" where
  "as_index Null = Some None"
| "as_index (N x) = (if x = of_nat (nat \<lfloor>x\<rfloor>) then Some (Some (nat \<lfloor>x\<rfloor>)) else None)"
| "as_index _ = None"

text \<open>The columns the views read, in the order in which \<open>main\<close> first reads them.\<close>

definition view_columns :: "string list" where
  "view_columns =
     [''Order_Status'', ''Revenue_USD'', ''Profit'', ''Order Id'', ''UnitsSold'',
      ''Buyer_Email'', ''Prime_Member'', ''IsLate'', ''ProductName'', ''Country'',
      ''DiscountRate'', ''OrderDate'', ''YearMonth'', ''Category'', ''Region'', ''Channel'',
      ''Payment_Method'', ''Payment_Fees'', ''DayOfWeek'', ''DayName'', ''Courier'',
      ''Shipping_Cost'', ''Days '', ''Brand'', ''Refund_Amount'']"

definition cell_at :: "table \<Rightarrow> string \<Rightarrow> nat \<Rightarrow> cell option" where
  "cell_at df c i =
     (case df c of None \<Rightarrow> None | Some xs \<Rightarrow> if i < length xs then Some (xs ! i) else None)"

definition row_of :: "table \<Rightarrow> nat \<Rightarrow> order option" where
  "row_of df i = do {
     v_order_id \<leftarrow> Option.bind (cell_at df ''Order Id'' i) as_text;
     v_buyer_email \<leftarrow> Option.bind (cell_at df ''Buyer_Email'' i) as_text;
     v_product_name \<leftarrow> Option.bind (cell_at df ''ProductName'' i) as_text;
     v_category \<leftarrow> Option.bind (cell_at df ''Category'' i) as_filled_text;
     v_brand \<leftarrow> Option.bind (cell_at df ''Brand'' i) as_filled_text;
     v_region \<leftarrow> Option.bind (cell_at df ''Region'' i) as_filled_text;
     v_country \<leftarrow> Option.bind (cell_at df ''Country'' i) as_filled_text;
     v_payment_method \<leftarrow> Option.bind (cell_at df ''Payment_Method'' i) as_filled_text;
     v_courier \<leftarrow> Option.bind (cell_at df ''Courier'' i) as_filled_text;
     v_channel \<leftarrow> Option.bind (cell_at df ''Channel'' i) as_text;
     v_order_status \<leftarrow> Option.bind (cell_at df ''Order_Status'' i) as_text;
     v_revenue_usd \<leftarrow> Option.bind (cell_at df ''Revenue_USD'' i) as_filled_number;
     v_profit \<leftarrow> Option.bind (cell_at df ''Profit'' i) as_filled_number;
     v_units_sold \<leftarrow> Option.bind (cell_at df ''UnitsSold'' i) as_filled_number;
     v_shipping_cost \<leftarrow> Option.bind (cell_at df ''Shipping_Cost'' i) as_filled_number;
     v_refund_amount \<leftarrow> Option.bind (cell_at df ''Refund_Amount'' i) as_filled_number;
     v_discount_rate \<leftarrow> Option.bind (cell_at df ''DiscountRate'' i) as_number;
     v_payment_fees \<leftarrow> Option.bind (cell_at df ''Payment_Fees'' i) as_number;
     v_days \<leftarrow> Option.bind (cell_at df ''Days '' i) as_number;
     v_prime_member \<leftarrow> Option.bind (cell_at df ''Prime_Member'' i) as_flag;
     v_is_late \<leftarrow> Option.bind (cell_at df ''IsLate'' i) as_flag;
     v_order_date \<leftarrow> Option.bind (cell_at df ''OrderDate'' i) as_date;
     v_day_of_week \<leftarrow> Option.bind (cell_at df ''DayOfWeek'' i) as_index;
     v_day_name \<leftarrow> Option.bind (cell_at df ''DayName'' i) as_text;
     v_year_month \<leftarrow> Option.bind (cell_at df ''YearMonth'' i) as_filled_text;
     Some \<lparr> order_id = v_order_id, buyer_email = v_buyer_email,
            product_name = v_product_name, category = v_category, brand = v_brand,
            region = v_region, country = v_country, payment_method = v_payment_method,
            courier = v_courier, channel = v_channel, order_status = v_order_status,
            revenue_usd = v_revenue_usd, profit = v_profit, units_sold = v_units_sold,
            shipping_cost = v_shipping_cost, refund_amount = v_refund_amount,
            discount_rate = v_discount_rate, payment_fees = v_payment_fees, days = v_days,
            prime_member = v_prime_member, is_late = v_is_late, order_date = v_order_date,
            day_of_week = v_day_of_week, day_name = v_day_name,
            year_month = v_year_month \<rparr> }"

text \<open>Every column the views read is there and has \<open>n\<close> cells.\<close>

definition has_columns :: "table \<Rightarrow> nat \<Rightarrow> bool" where
  "has_columns df n = list_all (\<lambda>c. map_option length (df c) = Some n) view_columns"

definition rows_of :: "table \<Rightarrow> frame option" where
  "rows_of df =
     (case df ''Order_Status'' of
        None \<Rightarrow> None
      | Some xs \<Rightarrow>
          if has_columns df (length xs) then those (map (row_of df) [0..<length xs])
          else None)"

section \<open>Sample inputs\<close>

text \<open>
  A sheet of two rows with empty cells in every cleaned column, text where a number or a
  date is expected, and no \<open>UnitsSold\<close> column; no text converts.
\<close>

definition no_parsers :: parsers where
  "no_parsers = \<lparr> parse_datetime = (\<lambda>c. None), parse_numeric = (\<lambda>c. None) \<rparr>"

definition sheet :: table where
  "sheet = map_of
     [ (''Category'', [S ''Toys'', Null]),
       (''Brand'', [Null, S ''Acme'']),
       (''Region'', [S ''EU'', Null]),
       (''Country'', [S ''DE'', Null]),
       (''Payment_Method'', [Null, S ''Card'']),
       (''Courier'', [S ''DHL'', Null]),
       (''OrderDate'', [D \<lparr> dyear = 2024, dmonth = Jan, dday = 15 \<rparr>,
                        D \<lparr> dyear = 2024, dmonth = Mar, dday = 2 \<rparr>]),
       (''Shipping_Date'', [Null, S ''soon'']),
       (''Expected_Delivery_Date'', [Null, Null]),
       (''Revenue_USD'', [N 100, S ''n/a'']),
       (''Profit'', [Null, N 10]),
       (''Prime_Member'', [Null, S ''No'']),
       (''Late Deliveries?'', [S ''YES'', Null]) ]"





text \<open>
  The two records of the scenario of the specification: order \<open>A1\<close>, completed, revenue 100,
  profit 20, region and country \<open>US\<close>; order \<open>A2\<close>, cancelled, revenue 50, profit 10. The
  fields the scenario leaves open are those of \<open>a\<close> and \<open>b\<close>.
\<close>

definition scenario_A1 :: "order \<Rightarrow> order" where
  "scenario_A1 a =
     a\<lparr> order_id := Some ''A1'', revenue_usd := 100, profit := 20,
        order_status := Some ''Completed'', region := ''US'', country := ''US'' \<rparr>"

definition scenario_A2 :: "order \<Rightarrow> order" where
  "scenario_A2 b =
     b\<lparr> order_id := Some ''A2'', revenue_usd := 50, profit := 10,
        order_status := Some ''Cancelled'' \<rparr>"

text \<open>A completed order of January 2024 and a cancelled one of March 2024.\<close>

definition an_order :: order where
  "an_order =
     \<lparr> order_id = Some ''A1'', buyer_email = Some ''ann@example.com'',
       product_name = Some ''Lamp'', category = ''Home'', brand = ''Acme'', region = ''US'',
       country = ''US'', payment_method = ''Card'', courier = ''UPS'', channel = Some ''Web'',
       order_status = Some ''Completed'', revenue_usd = 100, profit = 20, units_sold = 1,
       shipping_cost = 5, refund_amount = 0, discount_rate = Some (1 / 10),
       payment_fees = Some 1, days = Some 3, prime_member = True, is_late = False,
       order_date = Some \<lparr> dyear = 2024, dmonth = Jan, dday = 15 \<rparr>,
       day_of_week = Some 0, day_name = Some ''Monday'', year_month = ''2024-01'' \<rparr>"

definition a_cancelled_order :: order where
  "a_cancelled_order =
     an_order\<lparr> order_id := Some ''A2'', revenue_usd := 50, profit := 10,
        order_status := Some ''Cancelled'',
        order_date := Some \<lparr> dyear = 2024, dmonth = Mar, dday = 2 \<rparr>,
        day_of_week := Some 5, day_name := Some ''Saturday'', year_month := ''2024-03'' \<rparr>"

text \<open>
  Frames of completed orders for the category view: two categories with revenue 100 and
  50; one category whose revenue is 0; two categories, one of them with negative revenue.
\<close>

definition two_categories :: frame where
  "two_categories =
     [an_order, an_order\<lparr> order_id := Some ''A3'', category := ''Toys'', revenue_usd := 50 \<rparr>]"

definition zero_revenue :: frame where
  "zero_revenue = [an_order\<lparr> revenue_usd := 0 \<rparr>]"

definition negative_revenue :: frame where
  "negative_revenue =
     [an_order, an_order\<lparr> order_id := Some ''A3'', category := ''Toys'', revenue_usd := - 50 \<rparr>]"

text \<open>
  Completed orders in January, February and March 2024 with revenues 100, 3.004 and 50,
  and the cancelled order of March.
\<close>

definition three_months :: frame where
  "three_months =
     [an_order,
      an_order\<lparr> order_id := Some ''A3'', revenue_usd := 3004 / 1000, year_month := ''2024-02'' \<rparr>,
      a_cancelled_order,
      an_order\<lparr> order_id := Some ''A4'', revenue_usd := 50, year_month := ''2024-03'' \<rparr>]"

text \<open>Completed orders of two months without revenue, and of a month of revenue 50 after one without.\<close>

definition zero_months :: frame where
  "zero_months =
     [an_order\<lparr> revenue_usd := 0 \<rparr>,
      an_order\<lparr> order_id := Some ''A3'', revenue_usd := 0, year_month := ''2024-02'' \<rparr>,
      an_order\<lparr> order_id := Some ''A4'', revenue_usd := 50, year_month := ''2024-03'' \<rparr>]"

text \<open>Two couriers: one with two orders in three completed records, one with one order.\<close>

definition two_couriers :: frame where
  "two_couriers =
     [an_order\<lparr> courier := ''DHL'' \<rparr>,
      an_order,
      an_order\<lparr> order_id := Some ''A3'' \<rparr>,
      an_order\<lparr> revenue_usd := 7 \<rparr>,
      a_cancelled_order]"

text \<open>
  Whether a quotient is what a division by zero gives: NaN for 0 / 0, an infinity for a
  non-zero numerator (of which sign is not said: the sign of a zero is not kept).
\<close>

definition by_zero :: "rat \<Rightarrow> fnum \<Rightarrow> bool" where
  "by_zero a y = (if a = 0 then y = NaN else y = PInf \<or> y = NInf)"

section \<open>Properties\<close>

lemma sorted_wrt_sort_desc:
  "sorted_wrt (\<lambda>a b. f b \<le> f a) (sort_desc f rs)"
proof -
  have "sorted (map (\<lambda>r. - f r) (sort_key (\<lambda>r. - f r) rs))"
    by (rule sorted_sort_key)
  then show ?thesis
    by (simp add: sort_desc_def sorted_map)
qed

lemma set_sort_desc: "set (sort_desc f xs) = set xs"
  by (simp add: sort_desc_def)

lemma length_sort_desc: "length (sort_desc f xs) = length xs"
  by (simp add: sort_desc_def)

subsection \<open>Grouping\<close>

lemma set_dropna: "set (dropna xs) = {x. Some x \<in> set xs}"
  by (induction xs) (auto simp: dropna_def split: option.splits)

lemma set_group_keys: "set (group_keys key rs) = {k. \<exists>r \<in> set rs. key r = Some k}"
  by (auto simp: group_keys_def set_dropna image_iff) metis+

lemma sorted_group_keys: "sorted (group_keys key rs)"
  by (simp add: group_keys_def)

lemma distinct_group_keys: "distinct (group_keys key rs)"
  by (simp add: group_keys_def)

lemma map_fst_groupby: "map fst (groupby key rs) = group_keys key rs"
  by (simp add: groupby_def comp_def)

lemma groupby_member:
  "g \<in> set (groupby key rs) \<Longrightarrow> snd g = filter (\<lambda>r. key r = Some (fst g)) rs \<and> snd g \<noteq> []"
  by (auto simp: groupby_def set_group_keys filter_empty_conv)

lemma groupby_eq_Nil: "groupby key rs = [] \<longleftrightarrow> (\<forall>r \<in> set rs. key r = None)"
proof -
  have "groupby key rs = [] \<longleftrightarrow> set (group_keys key rs) = {}"
    by (simp add: groupby_def)
  also have "\<dots> \<longleftrightarrow> (\<forall>r \<in> set rs. key r = None)"
    by (auto simp: set_group_keys) (metis option.exhaust)
  finally show ?thesis .
qed

text \<open>The columns of a group, in terms of the records of its key.\<close>

lemma group_columns:
  assumes "g \<in> set (groupby key rs)"
  shows "group_revenue A g =
      fp_round A 2 (fp_group_sum A (map revenue_usd (filter (\<lambda>r. key r = Some (fst g)) rs)))"
    and "group_profit A g =
      fp_round A 2 (fp_group_sum A (map profit (filter (\<lambda>r. key r = Some (fst g)) rs)))"
    and "group_orders g = nunique (map order_id (filter (\<lambda>r. key r = Some (fst g)) rs))"
    and "group_customers g = nunique (map buyer_email (filter (\<lambda>r. key r = Some (fst g)) rs))"
  using groupby_member[OF assms]
  by (simp_all add: group_revenue_def group_profit_def group_orders_def group_customers_def)

subsection \<open>Exact arithmetic\<close>

lemma rint_error: "\<bar>of_int (rint x) - x\<bar> \<le> 1 / 2"
proof -
  define f where "f = \<lfloor>x\<rfloor>"
  have b: "of_int f \<le> x" "x < of_int f + 1"
    unfolding f_def by linarith+
  have r: "rint x =
      (if x - of_int f < 1 / 2 then f else if 1 / 2 < x - of_int f then f + 1
       else if even f then f else f + 1)"
    by (simp add: rint_def Let_def f_def)
  show ?thesis
    unfolding r using b by (auto simp: abs_if)
qed

lemma rint_nonneg: "0 \<le> x \<Longrightarrow> 0 \<le> rint x"
  by (auto simp: rint_def Let_def)

lemma round_to_nonneg: "0 \<le> x \<Longrightarrow> 0 \<le> round_to n x"
  by (simp add: round_to_def rint_nonneg)

lemma round_to_error: "\<bar>round_to 2 x - x\<bar> \<le> 1 / 200"
proof -
  have "round_to 2 x - x = (of_int (rint (x * 100)) - x * 100) / 100"
    by (simp add: round_to_def diff_divide_distrib)
  then have "\<bar>round_to 2 x - x\<bar> = \<bar>(of_int (rint (x * 100)) - x * 100) / 100\<bar>"
    by (simp only:)
  also have "\<dots> = \<bar>of_int (rint (x * 100)) - x * 100\<bar> / 100"
    by (subst abs_divide) simp
  also have "\<dots> \<le> (1 / 2) / 100"
    using rint_error[of "x * 100"] by (simp add: divide_right_mono)
  finally show ?thesis by simp
qed

lemma floor_rat_numeral: "\<lfloor>numeral a / numeral b :: rat\<rfloor> = numeral a div numeral b"
  by (metis floor_divide_of_int_eq of_int_numeral)

lemma floor_rat_minus_numeral:
  "\<lfloor>- (numeral a / numeral b) :: rat\<rfloor> = - numeral a div numeral b"
  by (metis divide_minus_left floor_divide_of_int_eq of_int_neg_numeral of_int_numeral)

text \<open>The fields of \<open>exact\<close>, and what is needed to compute with them.\<close>

lemma exact_fields:
  "fp_round exact = round_to" "fp_div exact = (\<lambda>a b. a / b)" "fp_mul exact = (\<lambda>a b. a * b)"
  "fp_add exact = (\<lambda>a b. a + b)" "fp_sum exact = sum_list" "fp_mean exact = mean_list"
  "fp_group_sum exact = sum_list" "fp_group_mean exact = mean_list"
  "fp_rolling_mean exact = mean_list"
  by (simp_all add: exact_def)

lemmas compute =
  exact_fields round_to_def rint_def mean_list_def floor_rat_numeral floor_rat_minus_numeral
  pct_def ratio_def fmean_def fillna_def fsub_def dropna_def nunique_def bool_num_def
  group_revenue_def group_profit_def group_units_def group_orders_def group_customers_def
  groupby_def group_keys_def completed_df_def sort_desc_def Let_def

subsection \<open>Cleaning\<close>

lemma collect_map_pure: "collect (map (pure f) xs) = Inr (map f xs)"
  by (induction xs) (simp_all add: pure_def)

lemma collect_repeat:
  "repeatable f \<Longrightarrow> collect (map f xs) = Inr ys \<Longrightarrow> collect (map f ys) = Inr ys"
proof (induction xs arbitrary: ys)
  case Nil
  then show ?case by simp
next
  case (Cons x xs)
  then show ?case
    by (auto simp: repeatable_def split: sum.splits)
qed

lemma assign_Inr:
  "assign c s f df = Inr df' \<longleftrightarrow>
     (\<exists>xs ys. df s = Some xs \<and> collect (map f xs) = Inr ys \<and> df' = df(c \<mapsto> ys))"
  by (auto simp: assign_def split: option.splits sum.splits)

lemma exec_again:
  assumes "target st = source st \<longrightarrow> repeatable (fn st)"
    and "exec st df = Inr df'"
  shows "exec st df' = Inr df'"
proof (cases st)
  case (Assign c s f)
  with assms(2) obtain xs ys where
    h: "df s = Some xs" "collect (map f xs) = Inr ys" "df' = df(c \<mapsto> ys)"
    by (auto simp: assign_Inr)
  show ?thesis
  proof (cases "c = s")
    case True
    with assms(1) Assign have "repeatable f" by simp
    then have "collect (map f ys) = Inr ys"
      using h(2) by (rule collect_repeat)
    with True h Assign show ?thesis
      by (simp add: assign_Inr)
  next
    case False
    with h Assign show ?thesis
      by (simp add: assign_Inr)
  qed
next
  case (Assign_if_present c f)
  show ?thesis
  proof (cases "df c = None")
    case True
    with assms(2) Assign_if_present show ?thesis by simp
  next
    case False
    with assms(2) Assign_if_present obtain xs ys where
      h: "df c = Some xs" "collect (map f xs) = Inr ys" "df' = df(c \<mapsto> ys)"
      by (auto simp: assign_Inr)
    from assms(1) Assign_if_present have "repeatable f" by simp
    then have "collect (map f ys) = Inr ys"
      using h(2) by (rule collect_repeat)
    with h Assign_if_present show ?thesis
      by (simp add: assign_Inr)
  qed
qed

lemma exec_cases:
  "exec st df = Inr df' \<Longrightarrow> df' = df \<or> (\<exists>ys. df' = df(target st \<mapsto> ys))"
  by (cases st) (auto simp: assign_Inr split: if_splits)

lemma exec_noop_iff:
  "exec st df = Inr df \<longleftrightarrow>
     (case st of
        Assign c s f \<Rightarrow> (\<exists>xs ys. df s = Some xs \<and> collect (map f xs) = Inr ys \<and> df c = Some ys)
      | Assign_if_present c f \<Rightarrow>
          (df c = None \<or> (\<exists>xs. df c = Some xs \<and> collect (map f xs) = Inr xs)))"
proof (cases st)
  case (Assign c s f)
  have "df = df(c \<mapsto> ys) \<longleftrightarrow> df c = Some ys" for ys
    by (metis fun_upd_same fun_upd_triv)
  with Assign show ?thesis
    by (simp add: assign_Inr)
next
  case (Assign_if_present c f)
  have "df = df(c \<mapsto> ys) \<longleftrightarrow> df c = Some ys" for ys
    by (metis fun_upd_same fun_upd_triv)
  with Assign_if_present show ?thesis
    by (auto simp: assign_Inr)
qed

lemma exec_noop_kept:
  assumes "exec st df = Inr df" and "exec later df = Inr df'" and "apart st later"
  shows "exec st df' = Inr df'"
proof -
  from assms(2) consider "df' = df" | ys where "df' = df(target later \<mapsto> ys)"
    using exec_cases by blast
  then show ?thesis
  proof cases
    case 1
    with assms(1) show ?thesis by simp
  next
    case 2
    from assms(3) have "df' (target st) = df (target st)" "df' (source st) = df (source st)"
      by (auto simp: 2 apart_def)
    with assms(1) show ?thesis
      unfolding exec_noop_iff by (cases st) simp_all
  qed
qed

lemma run_noop_kept:
  "list_all (apart st) sts \<Longrightarrow> exec st df = Inr df \<Longrightarrow> run sts df = Inr df' \<Longrightarrow>
   exec st df' = Inr df'"
proof (induction sts arbitrary: df)
  case Nil
  then show ?case by simp
next
  case (Cons later sts)
  from Cons.prems(3) obtain df1 where
    s: "exec later df = Inr df1" "run sts df1 = Inr df'"
    by (auto split: sum.splits)
  from Cons.prems(1) have "apart st later" "list_all (apart st) sts"
    by simp_all
  from exec_noop_kept[OF Cons.prems(2) s(1) \<open>apart st later\<close>]
  show ?case
    using Cons.IH \<open>list_all (apart st) sts\<close> s(2) by blast
qed

lemma run_again:
  "settled sts \<Longrightarrow> run sts df = Inr df' \<Longrightarrow> run sts df' = Inr df'"
proof (induction sts arbitrary: df)
  case Nil
  then show ?case by simp
next
  case (Cons st sts)
  from Cons.prems(2) obtain df1 where
    s: "exec st df = Inr df1" "run sts df1 = Inr df'"
    by (auto split: sum.splits)
  from Cons.prems(1) have w: "target st = source st \<longrightarrow> repeatable (fn st)"
    "list_all (apart st) sts" "settled sts"
    by simp_all
  have "exec st df1 = Inr df1"
    using w(1) s(1) by (rule exec_again)
  then have "exec st df' = Inr df'"
    using w(2) s(2) run_noop_kept by blast
  moreover have "run sts df' = Inr df'"
    using Cons.IH w(3) s(2) by blast
  ultimately show ?case by simp
qed

lemma repeatable_fill: "v \<noteq> Null \<Longrightarrow> repeatable (pure (fill v))"
  by (simp add: repeatable_def pure_def fill_def)

lemma repeatable_to_datetime: "repeatable (to_datetime P)"
  by (auto simp: repeatable_def to_datetime_def split: cell.splits option.splits)

lemma repeatable_to_datetime_coerce: "repeatable (pure (to_datetime_coerce P))"
  by (auto simp: repeatable_def pure_def to_datetime_coerce_def split: cell.splits option.splits)

lemma repeatable_to_numeric_fillna: "repeatable (pure (to_numeric_fillna P))"
  by (auto simp: repeatable_def pure_def to_numeric_fillna_def split: cell.splits option.splits)

lemma repeatable_prime_member_flag: "repeatable (pure prime_member_flag)"
  by (auto simp: repeatable_def pure_def prime_member_flag_def fill_def)

lemma settled_cleaning_steps: "settled (cleaning_steps P)"
  by (simp add: cleaning_steps_def apart_def repeatable_fill repeatable_to_datetime
      repeatable_to_datetime_coerce repeatable_to_numeric_fillna repeatable_prime_member_flag)

text \<open>
  C6. The cleaning is idempotent: a frame that \<open>load_and_clean_data\<close> has returned is
  returned unchanged, column for column, when it is cleaned again.
\<close>

theorem cleaning_idempotent:
  assumes "load_and_clean_data P df = Inr df'"
  shows "load_and_clean_data P df' = Inr df'"
  using assms unfolding load_and_clean_data_def
  by (rule run_again[OF settled_cleaning_steps])

lemma run_untouched:
  "run sts df = Inr df' \<Longrightarrow> c \<notin> target ` set sts \<Longrightarrow> df' c = df c"
proof (induction sts arbitrary: df)
  case Nil
  then show ?case by simp
next
  case (Cons st sts)
  from Cons.prems(1) obtain df1 where s: "exec st df = Inr df1" "run sts df1 = Inr df'"
    by (auto split: sum.splits)
  from s(1) Cons.prems(2) have "df1 c = df c"
    using exec_cases[of st df df1] by auto
  with Cons.IH[OF s(2)] Cons.prems(2) show ?case by simp
qed

lemma run_append:
  "run (xs @ ys) df = (case run xs df of Inl e \<Rightarrow> Inl e | Inr d \<Rightarrow> run ys d)"
  by (induction xs arbitrary: df) (auto split: sum.splits)

lemma truthy_fill_zero:
  "truthy (fill (N 0) c) \<longleftrightarrow> c \<notin> {Null, N 0, B False, S ''''}"
  by (cases c) (auto simp: fill_def)

text \<open>
  C10. After the cleaning, \<open>Prime_Member\<close> holds the truth value of each raw cell with an
  empty cell read as 0: false for an empty cell, 0, False and the empty string, true for
  every other value, the strings \<open>No\<close> and \<open>false\<close> among them.
\<close>

theorem prime_member_is_truth_value:
  assumes "load_and_clean_data P df = Inr df'"
  shows "(\<exists>xs. df ''Prime_Member'' = Some xs \<and>
             df' ''Prime_Member'' = Some (map (\<lambda>c. B (c \<notin> {Null, N 0, B False, S ''''})) xs))"
proof -
  define pre where "pre = take 17 (cleaning_steps P)"
  define post where "post = drop 18 (cleaning_steps P)"
  have split: "cleaning_steps P =
      pre @ [Assign ''Prime_Member'' ''Prime_Member'' (pure prime_member_flag)] @ post"
    by (simp add: pre_def post_def cleaning_steps_def)
  have pre_t: "''Prime_Member'' \<notin> target ` set pre"
    by (simp add: pre_def cleaning_steps_def)
  have post_t: "''Prime_Member'' \<notin> target ` set post"
    by (simp add: post_def cleaning_steps_def)
  from assms obtain d1 d2 where
    r: "run pre df = Inr d1"
      "assign ''Prime_Member'' ''Prime_Member'' (pure prime_member_flag) d1 = Inr d2"
      "run post d2 = Inr df'"
    unfolding load_and_clean_data_def split run_append
    by (auto split: sum.splits)
  from r(2) obtain xs where
    x: "d1 ''Prime_Member'' = Some xs" "d2 ''Prime_Member'' = Some (map prime_member_flag xs)"
    by (auto simp: assign_Inr collect_map_pure)
  have "df ''Prime_Member'' = Some xs"
    using run_untouched[OF r(1) pre_t] x(1) by simp
  moreover have "df' ''Prime_Member'' = Some (map prime_member_flag xs)"
    using run_untouched[OF r(3) post_t] x(2) by simp
  moreover have "prime_member_flag = (\<lambda>c. B (c \<notin> {Null, N 0, B False, S ''''}))"
    by (rule ext) (simp only: prime_member_flag_def truthy_fill_zero)
  ultimately show ?thesis by simp
qed

lemma sheet_clean: "\<exists>d. load_and_clean_data no_parsers sheet = Inr d"
  by (simp add: load_and_clean_data_def cleaning_steps_def assign_def sheet_def pure_def
      to_datetime_def)

theorem cleaning_idempotent_witness:
  "\<not> isl (load_and_clean_data no_parsers sheet) \<and>
   load_and_clean_data no_parsers (projr (load_and_clean_data no_parsers sheet)) =
     load_and_clean_data no_parsers sheet"
proof -
  obtain d where h: "load_and_clean_data no_parsers sheet = Inr d"
    using sheet_clean by blast
  from cleaning_idempotent[OF h] h show ?thesis by simp
qed

theorem prime_member_is_truth_value_witness:
  "\<not> isl (load_and_clean_data no_parsers sheet) \<and>
   projr (load_and_clean_data no_parsers sheet) ''Prime_Member'' = Some [B False, B True]"
proof -
  obtain d where h: "load_and_clean_data no_parsers sheet = Inr d"
    using sheet_clean by blast
  from prime_member_is_truth_value[OF h] h show ?thesis by (simp add: sheet_def)
qed

subsection \<open>When the KPI summary is computed\<close>

lemma dropna_eq_Nil: "dropna xs = [] \<longleftrightarrow> (\<forall>x \<in> set xs. x = None)"
  by (induction xs) (auto simp: dropna_def List.map_filter_simps split: option.splits)

lemma data_period_raises:
  "data_period df = Inl e \<longleftrightarrow> e = ValueError \<and> (\<forall>r \<in> set df. order_date r = None)"
proof (cases "dropna (map order_date df)")
  case Nil
  then have "\<forall>r \<in> set df. order_date r = None"
    by (simp add: dropna_eq_Nil)
  with Nil show ?thesis
    by (auto simp: data_period_def)
next
  case (Cons d ds)
  then have "dropna (map order_date df) \<noteq> []"
    by simp
  then have "\<not> (\<forall>r \<in> set df. order_date r = None)"
    by (simp add: dropna_eq_Nil)
  with Cons show ?thesis
    by (simp add: data_period_def)
qed

lemma data_period_returns:
  "(\<exists>p. data_period df = Inr p) \<longleftrightarrow> (\<exists>r \<in> set df. order_date r \<noteq> None)"
proof (cases "data_period df")
  case (Inl e)
  then show ?thesis
    using data_period_raises[of df e] by simp
next
  case (Inr p)
  have "\<not> (\<forall>r \<in> set df. order_date r = None)"
    using data_period_raises[of df ValueError] Inr by auto
  with Inr show ?thesis
    by simp
qed

lemma calculate_kpis_raises:
  "calculate_kpis A df = Inl e \<longleftrightarrow> e = ValueError \<and> (\<forall>r \<in> set df. order_date r = None)"
proof (cases "data_period df")
  case (Inl e')
  then show ?thesis
    using data_period_raises[of df e'] by (auto simp: calculate_kpis_def Let_def)
next
  case (Inr p)
  have "\<not> (\<forall>r \<in> set df. order_date r = None)"
    using data_period_raises[of df ValueError] Inr by auto
  with Inr show ?thesis
    by (simp add: calculate_kpis_def Let_def)
qed

lemma calculate_kpis_returns:
  "(\<exists>k. calculate_kpis A df = Inr k) \<longleftrightarrow> (\<exists>r \<in> set df. order_date r \<noteq> None)"
proof (cases "calculate_kpis A df")
  case (Inl e)
  then show ?thesis
    using calculate_kpis_raises[of A df e] by simp
next
  case (Inr k)
  have "\<not> (\<forall>r \<in> set df. order_date r = None)"
    using calculate_kpis_raises[of A df ValueError] Inr by auto
  with Inr show ?thesis
    by simp
qed

lemma calculate_kpis_fields:
  assumes "calculate_kpis A df = Inr k"
  shows "k_total_revenue k = fp_round A 2 (fp_sum A (map revenue_usd (completed_df df)))"
    and "k_total_profit k = fp_round A 2 (fp_sum A (map profit (completed_df df)))"
    and "k_total_orders k = nunique (map order_id (completed_df df))"
    and "k_total_units_sold k = trunc (fp_sum A (map units_sold (completed_df df)))"
    and "k_avg_order_value k =
      fround A 2 (fmean (fp_mean A) (map revenue_usd (completed_df df)))"
    and "k_profit_margin k =
      fround A 2 (fmul A (fdiv A (Fin (fp_sum A (map profit (completed_df df))))
        (Fin (fp_sum A (map revenue_usd (completed_df df))))) (Fin 100))"
    and "k_unique_customers k = nunique (map buyer_email (completed_df df))"
    and "k_prime_member_pct k =
      fround A 2 (fmul A (fmean (fp_mean A)
        (map (\<lambda>r. bool_num (prime_member r)) (completed_df df))) (Fin 100))"
    and "k_late_delivery_pct k =
      fround A 2 (fmul A (fmean (fp_mean A)
        (map (\<lambda>r. bool_num (is_late r)) (completed_df df))) (Fin 100))"
    and "k_unique_products k = nunique (map product_name (completed_df df))"
    and "k_unique_countries k = nunique (map (\<lambda>r. Some (country r)) (completed_df df))"
    and "k_avg_discount_rate k =
      fround A 2 (fmul A (fmean (fp_mean A) (dropna (map discount_rate (completed_df df))))
        (Fin 100))"
    and "data_period df = Inr (k_data_period k)"
  using assms by (auto simp: calculate_kpis_def Let_def split: sum.splits)

subsection \<open>The scenario of two records\<close>

text \<open>
  C4. For the two records of the scenario, \<open>A1\<close> completed with revenue 100 and \<open>A2\<close>
  cancelled with revenue 50, whatever their other fields: the KPI summary is computed
  unless both records have a blank order date, and its \<open>total_revenue\<close> is 100; the order
  status distribution has exactly the two rows \<open>Cancelled\<close> with revenue 50 and \<open>Completed\<close>
  with revenue 100, each with \<open>order_share\<close> 50. Every number of the scenario is a double
  and so are the results, so the exact arithmetic is that of the program here.
\<close>

theorem scenario_total_revenue_and_status_rows:
  "map_sum id k_total_revenue (calculate_kpis exact [scenario_A1 a, scenario_A2 b]) =
     (if order_date a = None \<and> order_date b = None then Inl ValueError else Inr 100) \<and>
   map (\<lambda>r. (st_status r, st_revenue r, st_order_share r))
     (calculate_order_status_distribution exact [scenario_A1 a, scenario_A2 b]) =
   [(''Cancelled'', 50, Fin 50), (''Completed'', 100, Fin 50)]"
proof -
  let ?df = "[scenario_A1 a, scenario_A2 b]"
  have keys: "group_keys order_status ?df = [''Cancelled'', ''Completed'']"
    by (simp add: group_keys_def dropna_def scenario_A1_def scenario_A2_def)
  have completed: "map revenue_usd (completed_df ?df) = [100]"
    by (simp add: completed_df_def scenario_A1_def scenario_A2_def)
  have dates: "(\<forall>r \<in> set ?df. order_date r = None) \<longleftrightarrow>
      order_date a = None \<and> order_date b = None"
    by (simp add: scenario_A1_def scenario_A2_def)
  have "map_sum id k_total_revenue (calculate_kpis exact ?df) =
      (if order_date a = None \<and> order_date b = None then Inl ValueError else Inr 100)"
  proof (cases "calculate_kpis exact ?df")
    case (Inl e)
    then have "e = ValueError \<and> (\<forall>r \<in> set ?df. order_date r = None)"
      using calculate_kpis_raises[of exact ?df e] by blast
    then have "e = ValueError" "order_date a = None \<and> order_date b = None"
      unfolding dates[symmetric] by simp_all
    with Inl show ?thesis
      by simp
  next
    case (Inr k)
    then have "\<exists>r \<in> set ?df. order_date r \<noteq> None"
      using calculate_kpis_returns[of exact ?df] by blast
    then have "\<not> (order_date a = None \<and> order_date b = None)"
      unfolding dates[symmetric] by simp
    moreover have "k_total_revenue k = 100"
      by (simp add: calculate_kpis_fields(1)[OF Inr] completed exact_fields round_to_def
          rint_def)
    ultimately show ?thesis
      using Inr by simp
  qed
  moreover have "map (\<lambda>r. (st_status r, st_revenue r, st_order_share r))
     (calculate_order_status_distribution exact ?df) =
     [(''Cancelled'', 50, Fin 50), (''Completed'', 100, Fin 50)]"
    by (simp add: calculate_order_status_distribution_def groupby_def keys status_group_def
        group_orders_def group_revenue_def nunique_def dropna_def pct_def
        exact_fields round_to_def rint_def)
      (simp add: scenario_A1_def scenario_A2_def round_to_def rint_def)
  ultimately show ?thesis by simp
qed

theorem scenario_total_revenue_and_status_rows_witness:
  "map_sum id k_total_revenue
     (calculate_kpis exact [scenario_A1 an_order, scenario_A2 a_cancelled_order]) = Inr 100"
  using scenario_total_revenue_and_status_rows[of an_order a_cancelled_order]
  by (simp add: an_order_def)

subsection \<open>Shipping performance\<close>

lemma distinct_map_sort_key:
  "distinct (map f (sort_key g xs)) \<longleftrightarrow> distinct (map f xs)"
  by (simp add: distinct_map)

lemma shipping_rows:
  assumes "row \<in> set (calculate_shipping_performance A df)"
  shows "sh_shipments row =
      nunique (map order_id (filter (\<lambda>r. courier r = sh_courier row) (completed_df df)))"
proof -
  from assms obtain g where g: "g \<in> set (groupby (\<lambda>r. Some (courier r)) (completed_df df))"
    "row = shipping_group A g"
    by (auto simp: calculate_shipping_performance_def set_sort_desc dest!: in_set_takeD)
  from group_columns(3)[OF g(1)] g(2) show ?thesis
    by (simp add: shipping_group_def Let_def)
qed

lemma shipping_couriers_distinct:
  "distinct (map sh_courier (calculate_shipping_performance A df))"
proof -
  let ?groups = "groupby (\<lambda>r. Some (courier r)) (completed_df df)"
  have "map sh_courier (map (shipping_group A) ?groups) = map fst ?groups"
    by (simp add: shipping_group_def Let_def)
  then have "distinct (map sh_courier (map (shipping_group A) ?groups))"
    by (simp only: map_fst_groupby distinct_group_keys)
  then have "distinct (map sh_courier
      (sort_desc (\<lambda>r. int (sh_shipments r)) (map (shipping_group A) ?groups)))"
    unfolding sort_desc_def by (simp only: distinct_map_sort_key)
  then have "distinct (take 10 (map sh_courier
      (sort_desc (\<lambda>r. int (sh_shipments r)) (map (shipping_group A) ?groups))))"
    by (rule distinct_take)
  then show ?thesis
    unfolding calculate_shipping_performance_def take_map .
qed

text \<open>
  C8. For every frame the shipping performance view has at most ten rows, one per courier,
  in descending order of \<open>shipments\<close>, and \<open>shipments\<close> is the number of distinct order ids of
  the completed records of the row's courier.
\<close>

theorem shipping_at_most_ten_sorted:
  "length (calculate_shipping_performance A df) \<le> 10 \<and>
   sorted_wrt (\<lambda>a b. sh_shipments b \<le> sh_shipments a) (calculate_shipping_performance A df) \<and>
   distinct (map sh_courier (calculate_shipping_performance A df)) \<and>
   (\<forall>row \<in> set (calculate_shipping_performance A df).
      sh_shipments row =
        nunique (map order_id
          (filter (\<lambda>r. courier r = sh_courier row) (completed_df df))))"
proof (intro conjI ballI)
  show "length (calculate_shipping_performance A df) \<le> 10"
    by (simp add: calculate_shipping_performance_def)
next
  let ?rows = "map (shipping_group A) (groupby (\<lambda>r. Some (courier r)) (completed_df df))"
  have "sorted_wrt (\<lambda>a b. int (sh_shipments b) \<le> int (sh_shipments a))
          (sort_desc (\<lambda>r. int (sh_shipments r)) ?rows)"
    by (rule sorted_wrt_sort_desc)
  then have "sorted_wrt (\<lambda>a b. sh_shipments b \<le> sh_shipments a)
          (take 10 (sort_desc (\<lambda>r. int (sh_shipments r)) ?rows))"
    by (simp add: sorted_wrt_take)
  then show "sorted_wrt (\<lambda>a b. sh_shipments b \<le> sh_shipments a)
      (calculate_shipping_performance A df)"
    by (simp add: calculate_shipping_performance_def)
next
  show "distinct (map sh_courier (calculate_shipping_performance A df))"
    by (rule shipping_couriers_distinct)
next
  fix row
  assume "row \<in> set (calculate_shipping_performance A df)"
  then show "sh_shipments row =
      nunique (map order_id (filter (\<lambda>r. courier r = sh_courier row) (completed_df df)))"
    by (rule shipping_rows)
qed

text \<open>
  Two couriers: UPS with the order ids A1 (in two records) and A3, DHL with A1; the
  cancelled record does not count.
\<close>

lemma two_couriers_view:
  "map (\<lambda>r. (sh_courier r, sh_shipments r, sh_late_count r))
     (calculate_shipping_performance exact two_couriers) = [(''UPS'', 2, 0), (''DHL'', 1, 0)]"
  by (simp add: calculate_shipping_performance_def shipping_group_def compute
      two_couriers_def an_order_def a_cancelled_order_def)

theorem shipping_at_most_ten_sorted_witness:
  "hd (calculate_shipping_performance exact two_couriers) \<in>
     set (calculate_shipping_performance exact two_couriers) \<and>
   sh_shipments (hd (calculate_shipping_performance exact two_couriers)) =
     nunique (map order_id
       (filter (\<lambda>r. courier r = sh_courier (hd (calculate_shipping_performance exact two_couriers)))
          (completed_df two_couriers)))"
proof -
  have "map (\<lambda>r. (sh_courier r, sh_shipments r, sh_late_count r))
     (calculate_shipping_performance exact two_couriers) \<noteq> []"
    by (simp only: two_couriers_view) simp
  then have m: "hd (calculate_shipping_performance exact two_couriers) \<in>
     set (calculate_shipping_performance exact two_couriers)"
    by simp
  from shipping_at_most_ten_sorted[of exact two_couriers] m show ?thesis
    by blast
qed

subsection \<open>Monthly trend\<close>

lemma length_shift1: "length (shift1 xs) = length xs"
  by (simp add: shift1_def)

lemma length_pct_change: "length (pct_change A xs) = length xs"
  by (simp add: pct_change_def length_shift1)

lemma length_rolling_mean: "length (rolling_mean A w xs) = length xs"
  by (simp add: rolling_mean_def)

lemma pct_change_first: "xs \<noteq> [] \<Longrightarrow> pct_change A xs ! 0 = NaN"
  by (cases xs) (simp_all add: pct_change_def shift1_def fsub_def)

lemma rolling_mean_early: "i < length xs \<Longrightarrow> Suc i < w \<Longrightarrow> rolling_mean A w xs ! i = NaN"
  by (simp add: rolling_mean_def)

lemma monthly_nth:
  assumes "i < length (groupby (\<lambda>r. Some (year_month r)) (completed_df df))"
  shows "calculate_monthly_trends A df ! i =
    (let monthly = map (monthly_group A) (groupby (\<lambda>r. Some (year_month r)) (completed_df df));
         revenue = map ma_revenue monthly
     in monthly_row (monthly ! i,
          fillna (Fin 0) (fround A 2 (fmul A (pct_change A revenue ! i) (Fin 100))),
          fillna (Fin (revenue ! i)) (fround A 2 (rolling_mean A 3 revenue ! i))))"
  using assms
  by (simp add: calculate_monthly_trends_def Let_def length_pct_change length_rolling_mean)

lemma length_monthly:
  "length (calculate_monthly_trends A df) =
   length (groupby (\<lambda>r. Some (year_month r)) (completed_df df))"
  by (simp add: calculate_monthly_trends_def Let_def length_pct_change length_rolling_mean)

lemma monthly_months:
  "map m_month (calculate_monthly_trends A df) =
   group_keys (\<lambda>r. Some (year_month r)) (completed_df df)"
proof (rule nth_equalityI)
  show "length (map m_month (calculate_monthly_trends A df)) =
        length (group_keys (\<lambda>r. Some (year_month r)) (completed_df df))"
    by (simp add: length_monthly groupby_def)
next
  fix i assume "i < length (map m_month (calculate_monthly_trends A df))"
  then have i: "i < length (groupby (\<lambda>r. Some (year_month r)) (completed_df df))"
    by (simp add: length_monthly)
  then show "map m_month (calculate_monthly_trends A df) ! i =
        group_keys (\<lambda>r. Some (year_month r)) (completed_df df) ! i"
    by (simp add: length_monthly monthly_nth Let_def monthly_row_def monthly_group_def
        groupby_def)
qed

lemma monthly_revenue_nth:
  assumes "i < length (calculate_monthly_trends A df)"
  shows "m_revenue (calculate_monthly_trends A df ! i) =
     fp_round A 2 (fp_group_sum A (map revenue_usd
       (filter (\<lambda>r. year_month r = m_month (calculate_monthly_trends A df ! i)) (completed_df df))))"
proof -
  from assms have i: "i < length (groupby (\<lambda>r. Some (year_month r)) (completed_df df))"
    by (simp add: length_monthly)
  then show ?thesis
    by (simp add: monthly_nth Let_def monthly_row_def monthly_group_def groupby_def
        group_revenue_def)
qed

lemma pct_change_later:
  assumes "Suc i < length xs"
  shows "pct_change A xs ! Suc i = fsub A (fdiv A (Fin (xs ! Suc i)) (Fin (xs ! i))) (Fin 1)"
proof -
  from assms have ne: "xs \<noteq> []" by auto
  from assms have i: "i < length (butlast xs)" by simp
  have "shift1 xs ! Suc i = Fin (butlast xs ! i)"
    using ne i by (simp add: shift1_def)
  also have "butlast xs ! i = xs ! i"
    using i by (simp add: nth_butlast)
  finally show ?thesis
    using assms by (simp add: pct_change_def length_shift1)
qed

lemma monthly_revenue_column:
  assumes "i < length (calculate_monthly_trends A df)"
  shows "m_revenue (calculate_monthly_trends A df ! i) =
    map ma_revenue
      (map (monthly_group A) (groupby (\<lambda>r. Some (year_month r)) (completed_df df))) ! i"
proof -
  from assms have "i < length (groupby (\<lambda>r. Some (year_month r)) (completed_df df))"
    by (simp add: length_monthly)
  then show ?thesis
    by (simp add: monthly_nth Let_def monthly_row_def)
qed

text \<open>The growth of a later month, from the rounded revenues of the month and of the one before.\<close>

lemma monthly_growth_later:
  assumes "Suc i < length (calculate_monthly_trends A df)"
  shows "m_revenue_growth (calculate_monthly_trends A df ! Suc i) =
    fillna (Fin 0) (fround A 2 (fmul A
      (fsub A (fdiv A (Fin (m_revenue (calculate_monthly_trends A df ! Suc i)))
                      (Fin (m_revenue (calculate_monthly_trends A df ! i)))) (Fin 1))
      (Fin 100)))"
proof -
  let ?monthly = "map (monthly_group A) (groupby (\<lambda>r. Some (year_month r)) (completed_df df))"
  from assms have l: "Suc i < length (groupby (\<lambda>r. Some (year_month r)) (completed_df df))"
    by (simp add: length_monthly)
  then have l': "Suc i < length (map ma_revenue ?monthly)"
    by simp
  from assms have i: "i < length (calculate_monthly_trends A df)"
    by simp
  have "m_revenue_growth (calculate_monthly_trends A df ! Suc i) =
      fillna (Fin 0) (fround A 2 (fmul A (pct_change A (map ma_revenue ?monthly) ! Suc i) (Fin 100)))"
    using l by (simp add: monthly_nth Let_def monthly_row_def)
  then show ?thesis
    unfolding pct_change_later[OF l'] monthly_revenue_column[OF assms]
      monthly_revenue_column[OF i] .
qed

text \<open>What the growth is after a month of rounded revenue 0.\<close>

lemma growth_after_zero:
  "fillna (Fin 0) (fround A 2 (fmul A (fsub A (fdiv A (Fin x) (Fin 0)) (Fin 1)) (Fin 100))) =
     (if x = 0 then Fin 0 else inf_of_sign x)"
  by (simp add: fillna_def fsub_def inf_of_sign_def)

text \<open>
  C5. When some record is completed, the monthly trend has a first period; its rows are in
  ascending order of the month key, one per month; the first has \<open>revenue_growth\<close> 0; and
  for each of the first two the moving average \<open>revenue_ma3\<close> is the period's own revenue,
  which is the sum of the completed revenue of that month rounded to two decimals. This
  holds for every float arithmetic.
\<close>

theorem monthly_first_periods:
  assumes "completed_df df \<noteq> []"
  shows "calculate_monthly_trends A df \<noteq> [] \<and>
     sorted (map m_month (calculate_monthly_trends A df)) \<and>
     distinct (map m_month (calculate_monthly_trends A df)) \<and>
     m_revenue_growth (hd (calculate_monthly_trends A df)) = Fin 0 \<and>
     (\<forall>i < length (calculate_monthly_trends A df). i < 2 \<longrightarrow>
        m_revenue_ma3 (calculate_monthly_trends A df ! i) =
          Fin (m_revenue (calculate_monthly_trends A df ! i)) \<and>
        m_revenue (calculate_monthly_trends A df ! i) =
          fp_round A 2 (fp_group_sum A (map revenue_usd
            (filter (\<lambda>r. year_month r = m_month (calculate_monthly_trends A df ! i))
               (completed_df df)))))"
proof -
  let ?g = "groupby (\<lambda>r. Some (year_month r)) (completed_df df)"
  let ?mt = "calculate_monthly_trends A df"
  from assms have g: "?g \<noteq> []"
    by (auto simp: groupby_eq_Nil)
  then have ne: "?mt \<noteq> []"
    using length_monthly[of A df] by auto
  have growth: "m_revenue_growth (hd ?mt) = Fin 0"
  proof -
    from g have 0: "0 < length ?g" by simp
    have "hd ?mt = ?mt ! 0"
      using ne by (simp add: hd_conv_nth)
    with g 0 show ?thesis
      by (simp add: monthly_nth Let_def monthly_row_def pct_change_first fillna_def)
  qed
  have ma3: "m_revenue_ma3 (?mt ! i) = Fin (m_revenue (?mt ! i))"
    if "i < length ?mt" "i < 2" for i
  proof -
    from that have i: "i < length ?g" by (simp add: length_monthly)
    with that(2) show ?thesis
      by (simp add: monthly_nth Let_def monthly_row_def rolling_mean_early fillna_def)
  qed
  show ?thesis
    using ne growth ma3 monthly_revenue_nth
    by (simp add: monthly_months sorted_group_keys distinct_group_keys)
qed

text \<open>
  Three months of completed revenue 100, 3.004 and 50: the first two moving averages are
  the months' own revenues, the third is the mean of the three.
\<close>

lemma three_months_view:
  "map (\<lambda>r. (m_month r, m_revenue r, m_revenue_growth r, m_revenue_ma3 r))
     (calculate_monthly_trends exact three_months) =
   [(''2024-01'', 100, Fin 0, Fin 100),
    (''2024-02'', 3, Fin (- 97), Fin 3),
    (''2024-03'', 50, Fin (156667 / 100), Fin 51)]"
  by (simp add: calculate_monthly_trends_def
      monthly_group_def monthly_row_def pct_change_def shift1_def rolling_mean_def
      compute three_months_def an_order_def a_cancelled_order_def)

theorem monthly_first_periods_witness:
  "completed_df three_months \<noteq> [] \<and>
   length (calculate_monthly_trends exact three_months) = 3 \<and>
   m_revenue_growth (hd (calculate_monthly_trends exact three_months)) = Fin 0 \<and>
   m_revenue_ma3 (calculate_monthly_trends exact three_months ! 0) =
     Fin (m_revenue (calculate_monthly_trends exact three_months ! 0)) \<and>
   m_revenue_ma3 (calculate_monthly_trends exact three_months ! 1) =
     Fin (m_revenue (calculate_monthly_trends exact three_months ! 1))"
proof -
  have h: "completed_df three_months \<noteq> []"
    by (simp add: completed_df_def three_months_def an_order_def)
  have "length (map (\<lambda>r. (m_month r, m_revenue r, m_revenue_growth r, m_revenue_ma3 r))
      (calculate_monthly_trends exact three_months)) = 3"
    by (simp only: three_months_view) simp
  then have l: "length (calculate_monthly_trends exact three_months) = 3"
    by simp
  from monthly_first_periods[OF h] h l show ?thesis by simp
qed

subsection \<open>The completed-order filter\<close>

lemma status_rows_cover:
  assumes "r \<in> set df" and "order_status r = Some s"
  shows "s \<in> st_status ` set (calculate_order_status_distribution A df)"
proof -
  from assms have "s \<in> set (group_keys order_status df)"
    by (auto simp: set_group_keys)
  then have "s \<in> set (map st_status (calculate_order_status_distribution A df))"
    by (simp add: calculate_order_status_distribution_def Let_def groupby_def comp_def
        status_group_def)
  then show ?thesis by simp
qed

lemma status_rows_content:
  assumes "row \<in> set (calculate_order_status_distribution A df)"
  shows "st_revenue row =
      fp_round A 2 (fp_group_sum A
        (map revenue_usd (filter (\<lambda>r. order_status r = Some (st_status row)) df)))"
    and "st_orders row =
      nunique (map order_id (filter (\<lambda>r. order_status r = Some (st_status row)) df))"
  using assms
  by (auto simp: calculate_order_status_distribution_def Let_def status_group_def
      group_orders_def group_revenue_def dest!: groupby_member)

text \<open>
  C1, as the code has it, for every float arithmetic. Two frames with the same completed records give the same
  monthly, category, regional, channel, payment, day-of-week, prime, shipping, product and
  brand views, and KPI summaries that agree in every field but \<open>data_period\<close>, which is taken
  from the order dates of all records. The order status distribution has a row for the
  status of every record, completed or not, and a row's revenue and order count are those
  of all records of its status.
\<close>

theorem views_depend_on_completed_records:
  assumes "completed_df df1 = completed_df df2"
  shows "calculate_monthly_trends A df1 = calculate_monthly_trends A df2 \<and>
     calculate_category_performance A df1 = calculate_category_performance A df2 \<and>
     calculate_regional_performance A df1 = calculate_regional_performance A df2 \<and>
     calculate_channel_performance A df1 = calculate_channel_performance A df2 \<and>
     calculate_payment_analysis A df1 = calculate_payment_analysis A df2 \<and>
     calculate_day_of_week_analysis A df1 = calculate_day_of_week_analysis A df2 \<and>
     calculate_prime_analysis A df1 = calculate_prime_analysis A df2 \<and>
     calculate_shipping_performance A df1 = calculate_shipping_performance A df2 \<and>
     calculate_top_products A df1 = calculate_top_products A df2 \<and>
     calculate_top_brands A df1 = calculate_top_brands A df2 \<and>
     (\<forall>k1 k2. calculate_kpis A df1 = Inr k1 \<longrightarrow> calculate_kpis A df2 = Inr k2 \<longrightarrow>
        k1\<lparr>k_data_period := k_data_period k2\<rparr> = k2) \<and>
     (\<forall>r \<in> set df1. \<forall>s. order_status r = Some s \<longrightarrow>
        s \<in> st_status ` set (calculate_order_status_distribution A df1)) \<and>
     (\<forall>row \<in> set (calculate_order_status_distribution A df1).
        st_revenue row =
          fp_round A 2 (fp_group_sum A
            (map revenue_usd (filter (\<lambda>r. order_status r = Some (st_status row)) df1))) \<and>
        st_orders row =
          nunique (map order_id (filter (\<lambda>r. order_status r = Some (st_status row)) df1)))"
proof -
  have kpis: "k1\<lparr>k_data_period := k_data_period k2\<rparr> = k2"
    if "calculate_kpis A df1 = Inr k1" "calculate_kpis A df2 = Inr k2" for k1 k2
    using that assms
    by (auto simp: calculate_kpis_def Let_def split: sum.splits)
  show ?thesis
    using assms kpis status_rows_cover status_rows_content[of _ A df1]
    by (simp add: calculate_monthly_trends_def calculate_category_performance_def
        calculate_regional_performance_def calculate_channel_performance_def
        calculate_payment_analysis_def calculate_day_of_week_analysis_def
        calculate_prime_analysis_def calculate_shipping_performance_def
        calculate_top_products_def calculate_top_brands_def)
qed

text \<open>
  The period label does depend on a record that is not completed: adding a cancelled order
  of March 2024 to a completed order of January 2024 changes it.
\<close>

theorem period_label_counterexample:
  "completed_df [an_order] = completed_df [an_order, a_cancelled_order] \<and>
   map_sum id k_data_period (calculate_kpis exact [an_order]) = Inr ''Jan 2024 - Jan 2024'' \<and>
   map_sum id k_data_period (calculate_kpis exact [an_order, a_cancelled_order]) =
     Inr ''Jan 2024 - Mar 2024''"
  by (simp add: completed_df_def calculate_kpis_def data_period_def dropna_def an_order_def
      a_cancelled_order_def strftime_b_Y_def date_min_def date_max_def date_key_def
      digit_char_def Let_def)

theorem views_depend_on_completed_records_witness:
  "completed_df [an_order] = completed_df [an_order, a_cancelled_order] \<and>
   calculate_monthly_trends exact [an_order] = calculate_monthly_trends exact [an_order, a_cancelled_order] \<and>
   calculate_category_performance exact [an_order] =
     calculate_category_performance exact [an_order, a_cancelled_order]"
proof -
  have h: "completed_df [an_order] = completed_df [an_order, a_cancelled_order]"
    by (simp add: completed_df_def an_order_def a_cancelled_order_def)
  from views_depend_on_completed_records[OF h] h show ?thesis by simp
qed

subsection \<open>The document\<close>






subsection \<open>The records of a cleaned sheet\<close>

lemma those_map_Some:
  "those (map f xs) = Some ys \<Longrightarrow>
     length ys = length xs \<and> (\<forall>i < length xs. f (xs ! i) = Some (ys ! i))"
proof (induction xs arbitrary: ys)
  case Nil
  then show ?case by simp
next
  case (Cons x xs)
  from Cons.prems obtain y ys' where
    y: "f x = Some y" "those (map f xs) = Some ys'" "ys = y # ys'"
    by (auto split: option.splits)
  from Cons.IH[OF y(2)] y(1,3) show ?case
    by (auto simp: nth_Cons split: nat.splits)
qed


text \<open>A cleaned frame has records only when no column that a view reads is missing.\<close>

lemma rows_of_columns:
  assumes "rows_of df = Some rows" and "c \<in> set view_columns"
  shows "\<exists>xs. df c = Some xs \<and> length xs = length rows"
proof -
  from assms(1) obtain xs where
    xs: "df ''Order_Status'' = Some xs" "has_columns df (length xs)"
      "those (map (row_of df) [0..<length xs]) = Some rows"
    by (auto simp: rows_of_def split: option.splits if_splits)
  from those_map_Some[OF xs(3)] have l: "length rows = length xs"
    by simp
  from xs(2) assms(2) have "map_option length (df c) = Some (length xs)"
    by (simp add: has_columns_def list_all_iff)
  with l show ?thesis
    by auto
qed













end
